theory Spec2Isabelle
  imports Complex_Main "HOL-Library.List_Lexorder"
begin

section \<open>Host strings and host numbers\<close>

text \<open>
  A JavaScript string is a sequence of UTF-16 code units; \<open>length\<close>, \<open>charAt\<close> and
  \<open>substring\<close> count code units. The keywords and messages of the program are CJK text,
  so a string is a list of code units here, and ASCII text is written through \<open>ascii\<close>.
  The order on strings (\<open>c >= '0'\<close>) is the lexicographic order on code units.
\<close>

type_synonym jsstring = "nat list"

definition ascii :: "string \<Rightarrow> jsstring" where
  "ascii cs = map of_char cs"

definition charAt :: "jsstring \<Rightarrow> nat \<Rightarrow> jsstring" where
  "charAt s i = (if i < length s then [s ! i] else [])"

definition substring :: "jsstring \<Rightarrow> nat \<Rightarrow> nat \<Rightarrow> jsstring" where
  "substring s a b = take (max a b - min a b) (drop (min a b) s)"

text \<open>Template literals print an integer-valued number in decimal.\<close>

function showNat :: "nat \<Rightarrow> jsstring" where
  "showNat n = (if n < 10 then [48 + n] else showNat (n div 10) @ [48 + n mod 10])"
  by pat_completeness auto
termination
  by (relation "measure id") auto

declare showNat.simps [simp del]

definition showInt :: "int \<Rightarrow> jsstring" where
  "showInt i = (if i < 0 then ascii ''-'' @ showNat (nat (- i)) else showNat (nat i))"

text \<open>
  Numbers are the host's IEEE-754 doubles. The program only ever hands them to host
  operations, so the embedding takes the number type \<open>'n\<close> and those operations as a
  parameter: every result below holds for any host arithmetic, the real one included.
  \<open>engine_message\<close> is the text the engine puts in the errors it raises itself.
\<close>

datatype engine_error = NullPropertyRead | NotAFunction | InvalidArrayLength

record 'n host =
  parseFloat :: "jsstring \<Rightarrow> 'n"
  num_add :: "'n \<Rightarrow> 'n \<Rightarrow> 'n"
  num_sub :: "'n \<Rightarrow> 'n \<Rightarrow> 'n"
  num_mul :: "'n \<Rightarrow> 'n \<Rightarrow> 'n"
  num_div :: "'n \<Rightarrow> 'n \<Rightarrow> 'n"
  num_mod :: "'n \<Rightarrow> 'n \<Rightarrow> 'n"
  num_neg :: "'n \<Rightarrow> 'n"
  num_less :: "'n \<Rightarrow> 'n \<Rightarrow> bool"
  num_less_eq :: "'n \<Rightarrow> 'n \<Rightarrow> bool"
  num_greater :: "'n \<Rightarrow> 'n \<Rightarrow> bool"
  num_greater_eq :: "'n \<Rightarrow> 'n \<Rightarrow> bool"
  num_eq :: "'n \<Rightarrow> 'n \<Rightarrow> bool"
  num_of_nat :: "nat \<Rightarrow> 'n"
  num_to_length :: "'n \<Rightarrow> nat"
  engine_message :: "engine_error \<Rightarrow> jsstring"

section \<open>Tokens (lexer.ts)\<close>

datatype TokenType =
    FUNCTION | IF | ELSE | RETURN | FOR | IN | LET | TRUE | FALSE | NULL
  | IDENTIFIER | NUMBER | STRING
  | PLUS | MINUS | MULTIPLY | DIVIDE | MODULO | ASSIGN
  | EQUAL | NOT_EQUAL | LESS | LESS_EQUAL | GREATER | GREATER_EQUAL
  | AND | OR | NOT
  | LEFT_PAREN | RIGHT_PAREN | LEFT_BRACE | RIGHT_BRACE | LEFT_BRACKET | RIGHT_BRACKET | COMMA
  | EOF

text \<open>A token's literal is \<open>null\<close>, a number or a string; the parser also makes the
  literals \<open>true\<close> and \<open>false\<close>.\<close>

datatype 'n lit = LNull | LBool bool | LNumber 'n | LString jsstring

record 'n token =
  type :: TokenType
  lexeme :: jsstring
  literal :: "'n lit"
  line :: int
  column :: int

section \<open>The lexer (lexer.ts)\<close>

record 'n lexer =
  source :: jsstring
  tokens :: "'n token list"
  start :: nat
  current :: nat
  cur_line :: int
  cur_column :: int

definition new_Lexer :: "jsstring \<Rightarrow> 'n lexer" where
  "new_Lexer src =
     \<lparr>source = src, tokens = [], start = 0, current = 0, cur_line = 1, cur_column = 1\<rparr>"

text \<open>The keyword map, with its ten entries in the order of the source.\<close>

definition lexer_keywords :: "(jsstring \<times> TokenType) list" where
  "lexer_keywords =
     [([0x51FD, 0x6570], FUNCTION),
      ([0x5982, 0x679C], IF),
      ([0x5426, 0x5219], ELSE),
      ([0x8FD4, 0x56DE], RETURN),
      ([0x5BF9, 0x4E8E], FOR),
      ([0x5728], IN),
      ([0x5C31, 0x662F], LET),
      ([0x771F], TRUE),
      ([0x5047], FALSE),
      ([0x7A7A], NULL)]"

definition isAtEnd :: "'n lexer \<Rightarrow> bool" where
  "isAtEnd s = (current s \<ge> length (source s))"

definition peek :: "'n lexer \<Rightarrow> jsstring" where
  "peek s = (if isAtEnd s then [0] else charAt (source s) (current s))"

definition peekNext :: "'n lexer \<Rightarrow> jsstring" where
  "peekNext s =
     (if current s + 1 \<ge> length (source s) then [0] else charAt (source s) (current s + 1))"

text \<open>The regular expression (the class of U+4E00 to U+9FA5, the underscore and the
  ASCII letters) is tested against a string: it holds when some code unit is in the class.\<close>

definition isAlpha :: "jsstring \<Rightarrow> bool" where
  "isAlpha c =
     list_ex (\<lambda>x. (0x4E00 \<le> x \<and> x \<le> 0x9FA5) \<or> x = 95 \<or> (97 \<le> x \<and> x \<le> 122)
                  \<or> (65 \<le> x \<and> x \<le> 90)) c"

definition isDigit :: "jsstring \<Rightarrow> bool" where
  "isDigit c = (c \<ge> ascii ''0'' \<and> c \<le> ascii ''9'')"

definition isAlphaNumeric :: "jsstring \<Rightarrow> bool" where
  "isAlphaNumeric c = (isAlpha c \<or> isDigit c)"

definition advance :: "'n lexer \<Rightarrow> jsstring \<times> 'n lexer" where
  "advance s =
     (charAt (source s) (current s),
      s\<lparr>cur_column := cur_column s + 1, current := current s + 1\<rparr>)"

definition match :: "jsstring \<Rightarrow> 'n lexer \<Rightarrow> bool \<times> 'n lexer" where
  "match expected s =
     (if isAtEnd s then (False, s)
      else if charAt (source s) (current s) \<noteq> expected then (False, s)
      else (True, s\<lparr>current := current s + 1, cur_column := cur_column s + 1\<rparr>))"

definition addToken :: "TokenType \<Rightarrow> 'n lit \<Rightarrow> 'n lexer \<Rightarrow> 'n lexer" where
  "addToken ty l s =
     (let text = substring (source s) (start s) (current s)
      in s\<lparr>tokens := tokens s @
              [\<lparr>type = ty, lexeme = text, literal = l, line = cur_line s,
                column = cur_column s - int (length text)\<rparr>]\<rparr>)"

lemma isAlphaNumeric_peek: "isAlphaNumeric (peek s) \<Longrightarrow> \<not> isAtEnd s"
  by (auto simp: isAlphaNumeric_def isAlpha_def isDigit_def peek_def ascii_def split: if_splits)

lemma isDigit_peek: "isDigit (peek s) \<Longrightarrow> \<not> isAtEnd s"
  using isAlphaNumeric_peek by (auto simp: isAlphaNumeric_def)

lemma advance_measure:
  "\<not> isAtEnd s \<Longrightarrow> length (source (snd (advance s))) - current (snd (advance s))
     < length (source s) - current s"
  by (auto simp: advance_def isAtEnd_def)

text \<open>The loop of a line comment: \<open>while (peek() !== '\n' && !isAtEnd()) advance()\<close>.
  The code unit 10 is the newline.\<close>

function lineComment :: "'n lexer \<Rightarrow> 'n lexer" where
  "lineComment s =
     (if peek s \<noteq> [10] \<and> \<not> isAtEnd s then lineComment (snd (advance s)) else s)"
  by pat_completeness auto
termination
  by (relation "measure (\<lambda>s. length (source s) - current s)") (auto simp: advance_measure)

declare lineComment.simps [simp del]

function multilineComment :: "'n lexer \<Rightarrow> jsstring + 'n lexer" where
  "multilineComment s =
     (if \<not> isAtEnd s then
        (if peek s = ascii ''*'' \<and> peekNext s = ascii ''/''
         then Inr (snd (advance (snd (advance s))))
         else multilineComment
                (snd (advance (if peek s = [10] then s\<lparr>cur_line := cur_line s + 1\<rparr> else s))))
      else Inl ([0x672A, 0x95ED, 0x5408, 0x7684, 0x591A, 0x884C, 0x6CE8, 0x91CA, 0x5728, 0x7B2C, 32]
                @ showInt (cur_line s) @ [32, 0x884C]))"
  by pat_completeness auto
termination
  by (relation "measure (\<lambda>s. length (source s) - current s)")
     (auto simp: advance_def isAtEnd_def)

declare multilineComment.simps [simp del]

text \<open>The loop of \<open>string()\<close>, up to the closing quote or the end of the source.\<close>

function string_loop :: "'n lexer \<Rightarrow> 'n lexer" where
  "string_loop s =
     (if peek s \<noteq> ascii ''\"'' \<and> \<not> isAtEnd s
      then string_loop
             (snd (advance (if peek s = [10] then s\<lparr>cur_line := cur_line s + 1, cur_column := 1\<rparr>
                            else s)))
      else s)"
  by pat_completeness auto
termination
  by (relation "measure (\<lambda>s. length (source s) - current s)")
     (auto simp: advance_def isAtEnd_def)

declare string_loop.simps [simp del]

definition string :: "'n lexer \<Rightarrow> jsstring + 'n lexer" where
  "string s0 =
     (let s = string_loop s0 in
      if isAtEnd s
      then Inl ([0x672A, 0x95ED, 0x5408, 0x7684, 0x5B57, 0x7B26, 0x4E32, 0x5728, 0x7B2C, 32]
                @ showInt (cur_line s) @ [32, 0x884C])
      else
        (let s1 = snd (advance s);
             v = substring (source s1) (start s1 + 1) (current s1 - 1)
         in Inr (addToken STRING (LString v) s1)))"

text \<open>The loop \<open>while (isDigit(peek())) advance()\<close>, which \<open>number()\<close> runs twice.\<close>

function digits :: "'n lexer \<Rightarrow> 'n lexer" where
  "digits s = (if isDigit (peek s) then digits (snd (advance s)) else s)"
  by pat_completeness auto
termination
  by (relation "measure (\<lambda>s. length (source s) - current s)")
     (auto simp: advance_measure isDigit_peek)

declare digits.simps [simp del]

definition number :: "'n host \<Rightarrow> 'n lexer \<Rightarrow> 'n lexer" where
  "number H s0 =
     (let s = digits s0;
          s1 = (if peek s = ascii ''.'' \<and> isDigit (peekNext s) then digits (snd (advance s)) else s);
          v = parseFloat H (substring (source s1) (start s1) (current s1))
      in addToken NUMBER (LNumber v) s1)"

function identifier_loop :: "'n lexer \<Rightarrow> 'n lexer" where
  "identifier_loop s =
     (if isAlphaNumeric (peek s) then identifier_loop (snd (advance s)) else s)"
  by pat_completeness auto
termination
  by (relation "measure (\<lambda>s. length (source s) - current s)")
     (auto simp: advance_measure isAlphaNumeric_peek)

declare identifier_loop.simps [simp del]

text \<open>\<open>identifier()\<close>, with \<open>this.keywords.get(text) || TokenType.IDENTIFIER\<close>: every token type is a
  non-empty string, so the default is taken exactly when the map has no entry.\<close>

definition scan_identifier :: "'n lexer \<Rightarrow> 'n lexer" where
  "scan_identifier s0 =
     (let s = identifier_loop s0;
          text = substring (source s) (start s) (current s);
          ty = (case map_of lexer_keywords text of Some k \<Rightarrow> k | None \<Rightarrow> IDENTIFIER)
      in addToken ty LNull s)"

definition scanToken :: "'n host \<Rightarrow> 'n lexer \<Rightarrow> jsstring + 'n lexer" where
  "scanToken H s0 =
     (let (c, s) = advance s0 in
      if c = ascii ''('' then Inr (addToken LEFT_PAREN LNull s)
      else if c = ascii '')'' then Inr (addToken RIGHT_PAREN LNull s)
      else if c = ascii ''{'' then Inr (addToken LEFT_BRACE LNull s)
      else if c = ascii ''}'' then Inr (addToken RIGHT_BRACE LNull s)
      else if c = ascii ''['' then Inr (addToken LEFT_BRACKET LNull s)
      else if c = ascii '']'' then Inr (addToken RIGHT_BRACKET LNull s)
      else if c = ascii '','' then Inr (addToken COMMA LNull s)
      else if c = ascii ''+'' then Inr (addToken PLUS LNull s)
      else if c = ascii ''-'' then Inr (addToken MINUS LNull s)
      else if c = ascii ''*'' then Inr (addToken MULTIPLY LNull s)
      else if c = ascii ''%'' then Inr (addToken MODULO LNull s)
      else if c = ascii ''='' then
        (let (m, s1) = match (ascii ''='') s in Inr (addToken (if m then EQUAL else ASSIGN) LNull s1))
      else if c = ascii ''!'' then
        (let (m, s1) = match (ascii ''='') s in Inr (addToken (if m then NOT_EQUAL else NOT) LNull s1))
      else if c = ascii ''<'' then
        (let (m, s1) = match (ascii ''='') s in Inr (addToken (if m then LESS_EQUAL else LESS) LNull s1))
      else if c = ascii ''>'' then
        (let (m, s1) = match (ascii ''='') s
         in Inr (addToken (if m then GREATER_EQUAL else GREATER) LNull s1))
      else if c = ascii '' '' \<or> c = [13] \<or> c = [9] then Inr s
      else if c = [10] then Inr (s\<lparr>cur_line := cur_line s + 1, cur_column := 1\<rparr>)
      else if c = ascii ''\"'' then string s
      else if c = ascii ''/'' then
        (let (m, s1) = match (ascii ''/'') s in
         if m then Inr (lineComment s1)
         else (let (m2, s2) = match (ascii ''*'') s1 in
               if m2 then multilineComment s2 else Inr (addToken DIVIDE LNull s2)))
      else if isDigit c then Inr (number H s)
      else if isAlpha c then Inr (scan_identifier s)
      else Inl ([0x610F, 0x5916, 0x7684, 0x5B57, 0x7B26, 32, 39] @ c @ [39, 32, 0x5728, 0x7B2C, 32]
                @ showInt (cur_line s) @ [32, 0x884C, 0xFF0C, 0x7B2C, 32]
                @ showInt (cur_column s) @ [32, 0x5217]))"

text \<open>No scanning step changes the source or moves the cursor back, and a token step
  moves it forward: the loop of \<open>scanTokens\<close> terminates.\<close>

lemma advance_frame [simp]:
  "source (snd (advance s)) = source s" "current (snd (advance s)) = current s + 1"
  by (simp_all add: advance_def)

lemma addToken_frame [simp]:
  "source (addToken ty l s) = source s" "current (addToken ty l s) = current s"
  by (simp_all add: addToken_def Let_def)

lemma match_frame:
  "source (snd (match e s)) = source s" "current s \<le> current (snd (match e s))"
  by (simp_all add: match_def)

lemma lineComment_frame:
  "source (lineComment s) = source s \<and> current s \<le> current (lineComment s)"
proof (induction s rule: lineComment.induct)
  case (1 s)
  then show ?case by (subst (1 2) lineComment.simps) auto
qed

lemma string_loop_frame:
  "source (string_loop s) = source s \<and> current s \<le> current (string_loop s)"
proof (induction s rule: string_loop.induct)
  case (1 s)
  then show ?case by (subst (1 2) string_loop.simps) (auto simp: advance_def)
qed

lemma digits_frame:
  "source (digits s) = source s \<and> current s \<le> current (digits s)"
proof (induction s rule: digits.induct)
  case (1 s)
  then show ?case by (subst (1 2) digits.simps) auto
qed

lemma identifier_loop_frame:
  "source (identifier_loop s) = source s \<and> current s \<le> current (identifier_loop s)"
proof (induction s rule: identifier_loop.induct)
  case (1 s)
  then show ?case by (subst (1 2) identifier_loop.simps) auto
qed

lemma multilineComment_frame:
  "multilineComment s = Inr s' \<Longrightarrow> source s' = source s \<and> current s \<le> current s'"
proof (induction s rule: multilineComment.induct)
  case (1 s)
  show ?case
  proof (cases "peek s = ascii ''*'' \<and> peekNext s = ascii ''/''")
    case True
    with "1.prems" show ?thesis
      by (subst (asm) multilineComment.simps) (auto split: if_splits)
  next
    case False
    let ?t = "snd (advance (if peek s = [10] then s\<lparr>cur_line := cur_line s + 1\<rparr> else s))"
    from "1.prems" False have ne: "\<not> isAtEnd s" and rec: "multilineComment ?t = Inr s'"
      by (subst (asm) multilineComment.simps, auto split: if_splits)+
    from "1.IH"[OF ne False rec] show ?thesis by (auto split: if_splits)
  qed
qed

lemma string_frame: "string s = Inr s' \<Longrightarrow> source s' = source s \<and> current s \<le> current s'"
  using string_loop_frame[of s]
  by (auto simp: string_def Let_def split: if_splits)

lemma number_frame: "source (number H s) = source s \<and> current s \<le> current (number H s)"
  using digits_frame[of s] digits_frame[of "snd (advance (digits s))"]
  by (auto simp: number_def Let_def)

lemma scan_identifier_frame:
  "source (scan_identifier s) = source s \<and> current s \<le> current (scan_identifier s)"
  using identifier_loop_frame[of s] by (auto simp: scan_identifier_def Let_def)

lemma scanToken_progress:
  assumes "scanToken H s = Inr s'"
  shows "source s' = source s \<and> current s < current s'"
proof -
  obtain c s1 where a: "advance s = (c, s1)" by (cases "advance s")
  then have s1: "source s1 = source s" "current s1 = current s + 1"
    using advance_frame[of s] by simp_all
  show ?thesis
    using assms a s1
      match_frame[where e="ascii ''=''" and s=s1] match_frame[where e="ascii ''/''" and s=s1]
      match_frame[where e="ascii ''*''" and s="snd (match (ascii ''/'') s1)"]
      lineComment_frame[of "snd (match (ascii ''/'') s1)"]
      number_frame[of H s1] scan_identifier_frame[of s1]
    unfolding scanToken_def
    by (auto simp: Let_def split: if_splits prod.splits dest!: string_frame multilineComment_frame)
qed

function scanTokens_loop :: "'n host \<Rightarrow> 'n lexer \<Rightarrow> jsstring + 'n lexer" where
  "scanTokens_loop H s =
     (if \<not> isAtEnd s then
        (case scanToken H (s\<lparr>start := current s\<rparr>) of
           Inl e \<Rightarrow> Inl e
         | Inr s' \<Rightarrow> scanTokens_loop H s')
      else Inr s)"
  by pat_completeness auto
termination
proof (relation "measure (\<lambda>(H, s). length (source s) - current s)")
  fix H :: "'n host" and s s' :: "'n lexer"
  assume "\<not> isAtEnd s" and "scanToken H (s\<lparr>start := current s\<rparr>) = Inr s'"
  then show "((H, s'), (H, s)) \<in> measure (\<lambda>(H, s). length (source s) - current s)"
    using scanToken_progress[of H "s\<lparr>start := current s\<rparr>" s']
    by (auto simp: isAtEnd_def)
qed simp

declare scanTokens_loop.simps [simp del]

definition scanTokens :: "'n host \<Rightarrow> 'n lexer \<Rightarrow> jsstring + 'n token list" where
  "scanTokens H s0 =
     (case scanTokens_loop H s0 of
        Inl e \<Rightarrow> Inl e
      | Inr s \<Rightarrow>
          Inr (tokens s @
               [\<lparr>type = EOF, lexeme = [], literal = LNull, line = cur_line s,
                 column = cur_column s\<rparr>]))"

section \<open>The syntax tree (parser.ts)\<close>

datatype 'n expr =
    Binary "'n expr" "'n token" "'n expr"
  | Grouping "'n expr"
  | Literal "'n lit"
  | Unary "'n token" "'n expr"
  | Variable "'n token"
  | Assign "'n token" "'n expr"
  | Call "'n expr" "'n token" "'n expr list"
  | Array "'n expr list"

datatype 'n stmt =
    Expression "'n expr"
  | Function "'n token" "'n token list" "'n stmt list"
  | If_stmt "'n expr" "'n stmt" "'n stmt option"
  | Let_stmt "'n token" "'n expr option"
  | Return "'n token" "'n expr option"
  | While "'n expr" "'n stmt"
  | Block "'n stmt list"
  | For "'n token" "'n expr" "'n stmt"

section \<open>The parser (parser.ts)\<close>

text \<open>
  The parser reads the token list at a cursor; a parsing method returns a node and moves
  the cursor, or throws an \<open>Error\<close>. The cursor is part of what is thrown here, since
  \<open>declaration\<close> moves it (\<open>synchronize\<close>) before it throws again. The methods are
  mutually recursive through parenthesised expressions, argument lists and nested
  statements; as for the tree walk, a bound on the depth of the calls is passed down.
  The methods of the parser that have the names of methods of the lexer, or of keywords,
  carry the prefix \<open>parser\<close> or \<open>parse\<close>.
\<close>

type_synonym ('n, 'a) parsed = "((jsstring \<times> nat) + ('a \<times> nat)) option"

definition thenParse ::
  "('n, 'a) parsed \<Rightarrow> ('a \<Rightarrow> nat \<Rightarrow> ('n, 'b) parsed) \<Rightarrow> ('n, 'b) parsed" where
  "thenParse m f =
     (case m of
        None \<Rightarrow> None
      | Some (Inl e) \<Rightarrow> Some (Inl e)
      | Some (Inr (v, c)) \<Rightarrow> f v c)"

text \<open>The token list of the lexer ends with the end-of-input token, and the cursor never
  passes it: \<open>tokens[current]\<close> is always a token.\<close>

definition parser_peek :: "'n token list \<Rightarrow> nat \<Rightarrow> 'n token" where
  "parser_peek ts c = ts ! c"

definition parser_previous :: "'n token list \<Rightarrow> nat \<Rightarrow> 'n token" where
  "parser_previous ts c = ts ! (c - 1)"

definition parser_isAtEnd :: "'n token list \<Rightarrow> nat \<Rightarrow> bool" where
  "parser_isAtEnd ts c = (type (parser_peek ts c) = EOF)"

definition parser_check :: "'n token list \<Rightarrow> nat \<Rightarrow> TokenType \<Rightarrow> bool" where
  "parser_check ts c ty = (if parser_isAtEnd ts c then False else type (parser_peek ts c) = ty)"

definition parser_advance :: "'n token list \<Rightarrow> nat \<Rightarrow> nat" where
  "parser_advance ts c = (if \<not> parser_isAtEnd ts c then c + 1 else c)"

definition parser_match :: "'n token list \<Rightarrow> nat \<Rightarrow> TokenType list \<Rightarrow> bool \<times> nat" where
  "parser_match ts c tys =
     (if list_ex (parser_check ts c) tys then (True, parser_advance ts c) else (False, c))"

definition parser_error :: "'n token \<Rightarrow> jsstring \<Rightarrow> jsstring" where
  "parser_error tok message =
     [0x7B2C, 32] @ showInt (line tok) @ [32, 0x884C, 0xFF0C, 0x7B2C, 32] @ showInt (column tok)
     @ [32, 0x5217, 0xFF0C, 0x5728, 32]
     @ (if type tok = EOF then [0x6587, 0x4EF6, 0x672B, 0x5C3E] else [39] @ lexeme tok @ [39])
     @ [32, 0x5904, 0xFF1A] @ message"

definition parser_consume :: "'n token list \<Rightarrow> nat \<Rightarrow> TokenType \<Rightarrow> jsstring \<Rightarrow> ('n, 'n token) parsed" where
  "parser_consume ts c ty message =
     (if parser_check ts c ty
      then Some (Inr (parser_previous ts (parser_advance ts c), parser_advance ts c))
      else Some (Inl (parser_error (parser_peek ts c) message, c)))"

text \<open>The messages of the parser.\<close>

definition msg_need_function_name :: jsstring where
  "msg_need_function_name =
     [0x9700, 0x8981, 0x51FD, 0x6570, 0x540D]"

definition msg_need_paren_after_name :: jsstring where
  "msg_need_paren_after_name =
     [0x51FD, 0x6570, 0x540D, 0x540E, 0x9700, 0x8981, 32, 39, 40, 39]"

definition msg_too_many_parameters :: jsstring where
  "msg_too_many_parameters =
     [0x51FD, 0x6570, 0x53C2, 0x6570, 0x4E0D, 0x80FD, 0x8D85, 0x8FC7, 32, 50, 53, 53, 32, 0x4E2A]"

definition msg_need_parameter_name :: jsstring where
  "msg_need_parameter_name =
     [0x9700, 0x8981, 0x53C2, 0x6570, 0x540D]"

definition msg_need_paren_after_parameters :: jsstring where
  "msg_need_paren_after_parameters =
     [0x53C2, 0x6570, 0x5217, 0x8868, 0x540E, 0x9700, 0x8981, 32, 39, 41, 39]"

definition msg_need_brace_for_body :: jsstring where
  "msg_need_brace_for_body =
     [0x51FD, 0x6570, 0x4F53, 0x9700, 0x8981, 32, 39, 123, 39]"

definition msg_need_variable_name :: jsstring where
  "msg_need_variable_name =
     [0x9700, 0x8981, 0x53D8, 0x91CF, 0x540D]"

definition msg_need_paren_after_if :: jsstring where
  "msg_need_paren_after_if =
     [39, 0x5982, 0x679C, 39, 32, 0x540E, 0x9700, 0x8981, 32, 39, 40, 39]"

definition msg_need_paren_after_condition :: jsstring where
  "msg_need_paren_after_condition =
     [0x6761, 0x4EF6, 0x540E, 0x9700, 0x8981, 32, 39, 41, 39]"

definition msg_need_loop_variable :: jsstring where
  "msg_need_loop_variable =
     [0x9700, 0x8981, 0x5FAA, 0x73AF, 0x53D8, 0x91CF, 0x540D]"

definition msg_need_in :: jsstring where
  "msg_need_in =
     [0x9700, 0x8981, 0x5173, 0x952E, 0x5B57, 32, 39, 0x5728, 39]"

definition msg_need_brace_after_block :: jsstring where
  "msg_need_brace_after_block =
     [0x4EE3, 0x7801, 0x5757, 0x9700, 0x8981, 32, 39, 125, 39]"

definition msg_invalid_assignment_target :: jsstring where
  "msg_invalid_assignment_target =
     [0x65E0, 0x6548, 0x7684, 0x8D4B, 0x503C, 0x76EE, 0x6807]"

definition msg_need_paren_after_arguments :: jsstring where
  "msg_need_paren_after_arguments =
     [0x51FD, 0x6570, 0x8C03, 0x7528, 0x9700, 0x8981, 32, 39, 41, 39]"

definition msg_need_bracket :: jsstring where
  "msg_need_bracket =
     [0x6570, 0x7EC4, 0x9700, 0x8981, 32, 39, 93, 39]"

definition msg_need_paren_after_expression :: jsstring where
  "msg_need_paren_after_expression =
     [0x8868, 0x8FBE, 0x5F0F, 0x540E, 0x9700, 0x8981, 32, 39, 41, 39]"

definition msg_need_expression :: jsstring where
  "msg_need_expression =
     [0x9700, 0x8981, 0x8868, 0x8FBE, 0x5F0F]"


text \<open>\<open>synchronize\<close>: one token is skipped, then tokens are skipped up to the end of the
  input, a token after a closing brace, or a token that begins a declaration or a
  statement.\<close>

function synchronize_loop :: "'n token list \<Rightarrow> nat \<Rightarrow> nat" where
  "synchronize_loop ts c =
     (if c < length ts \<and> \<not> parser_isAtEnd ts c then
        (if type (parser_previous ts c) = RIGHT_BRACE then c
         else if type (parser_peek ts c) \<in> {FUNCTION, LET, IF, FOR, RETURN} then c
         else synchronize_loop ts (parser_advance ts c))
      else c)"
  by pat_completeness auto
termination
  by (relation "measure (\<lambda>(ts, c). length ts - c)") (auto simp: parser_advance_def)

declare synchronize_loop.simps [simp del]

definition synchronize :: "'n token list \<Rightarrow> nat \<Rightarrow> nat" where
  "synchronize ts c = synchronize_loop ts (parser_advance ts c)"


subsection \<open>Expressions\<close>

text \<open>Each loop \<open>while (this.match(...))\<close> of a binary level is a function of its own,
  as are the two \<open>do ... while (this.match(COMMA))\<close> loops of argument lists and array
  literals and the loop of \<open>call\<close>.\<close>

function (sequential) parse_expression ::
  "'n token list \<Rightarrow> nat \<Rightarrow> nat \<Rightarrow> ('n, 'n expr) parsed"
and parse_assignment ::
  "'n token list \<Rightarrow> nat \<Rightarrow> nat \<Rightarrow> ('n, 'n expr) parsed"
and parse_or ::
  "'n token list \<Rightarrow> nat \<Rightarrow> nat \<Rightarrow> ('n, 'n expr) parsed"
and or_loop ::
  "'n token list \<Rightarrow> nat \<Rightarrow> 'n expr \<Rightarrow> nat \<Rightarrow> ('n, 'n expr) parsed"
and parse_and ::
  "'n token list \<Rightarrow> nat \<Rightarrow> nat \<Rightarrow> ('n, 'n expr) parsed"
and and_loop ::
  "'n token list \<Rightarrow> nat \<Rightarrow> 'n expr \<Rightarrow> nat \<Rightarrow> ('n, 'n expr) parsed"
and parse_equality ::
  "'n token list \<Rightarrow> nat \<Rightarrow> nat \<Rightarrow> ('n, 'n expr) parsed"
and equality_loop ::
  "'n token list \<Rightarrow> nat \<Rightarrow> 'n expr \<Rightarrow> nat \<Rightarrow> ('n, 'n expr) parsed"
and parse_comparison ::
  "'n token list \<Rightarrow> nat \<Rightarrow> nat \<Rightarrow> ('n, 'n expr) parsed"
and comparison_loop ::
  "'n token list \<Rightarrow> nat \<Rightarrow> 'n expr \<Rightarrow> nat \<Rightarrow> ('n, 'n expr) parsed"
and parse_term ::
  "'n token list \<Rightarrow> nat \<Rightarrow> nat \<Rightarrow> ('n, 'n expr) parsed"
and term_loop ::
  "'n token list \<Rightarrow> nat \<Rightarrow> 'n expr \<Rightarrow> nat \<Rightarrow> ('n, 'n expr) parsed"
and parse_factor ::
  "'n token list \<Rightarrow> nat \<Rightarrow> nat \<Rightarrow> ('n, 'n expr) parsed"
and factor_loop ::
  "'n token list \<Rightarrow> nat \<Rightarrow> 'n expr \<Rightarrow> nat \<Rightarrow> ('n, 'n expr) parsed"
and parse_unary ::
  "'n token list \<Rightarrow> nat \<Rightarrow> nat \<Rightarrow> ('n, 'n expr) parsed"
and parse_call ::
  "'n token list \<Rightarrow> nat \<Rightarrow> nat \<Rightarrow> ('n, 'n expr) parsed"
and call_loop ::
  "'n token list \<Rightarrow> nat \<Rightarrow> 'n expr \<Rightarrow> nat \<Rightarrow> ('n, 'n expr) parsed"
and finishCall ::
  "'n token list \<Rightarrow> nat \<Rightarrow> 'n expr \<Rightarrow> nat \<Rightarrow> ('n, 'n expr) parsed"
and finishCall_args ::
  "'n token list \<Rightarrow> nat \<Rightarrow> 'n expr list \<Rightarrow> nat \<Rightarrow> ('n, 'n expr list) parsed"
and parse_primary ::
  "'n token list \<Rightarrow> nat \<Rightarrow> nat \<Rightarrow> ('n, 'n expr) parsed"
and array_elements ::
  "'n token list \<Rightarrow> nat \<Rightarrow> 'n expr list \<Rightarrow> nat \<Rightarrow> ('n, 'n expr list) parsed"
where
  "parse_expression ts 0 c = None"
| "parse_expression ts (Suc n) c =
     parse_assignment ts n c"
| "parse_assignment ts 0 c = None"
| "parse_assignment ts (Suc n) c =
     thenParse (parse_or ts n c) (\<lambda>e c1.
       case parser_match ts c1 [ASSIGN] of
         (True, c2) \<Rightarrow>
           thenParse (parse_assignment ts n c2) (\<lambda>v c3.
             case e of
               Variable name \<Rightarrow> Some (Inr (Assign name v, c3))
             | _ \<Rightarrow>
                 Some (Inl (parser_error (parser_previous ts c2) msg_invalid_assignment_target,
                            c3)))
       | (False, c2) \<Rightarrow> Some (Inr (e, c2)))"
| "parse_or ts 0 c = None"
| "parse_or ts (Suc n) c =
     thenParse (parse_and ts n c) (\<lambda>e c1. or_loop ts n e c1)"
| "or_loop ts 0 e c = None"
| "or_loop ts (Suc n) e c =
     (case parser_match ts c [OR] of
        (True, c1) \<Rightarrow>
          thenParse (parse_and ts n c1) (\<lambda>r c2.
            or_loop ts n (Binary e (parser_previous ts c1) r) c2)
      | (False, c1) \<Rightarrow> Some (Inr (e, c1)))"
| "parse_and ts 0 c = None"
| "parse_and ts (Suc n) c =
     thenParse (parse_equality ts n c) (\<lambda>e c1. and_loop ts n e c1)"
| "and_loop ts 0 e c = None"
| "and_loop ts (Suc n) e c =
     (case parser_match ts c [AND] of
        (True, c1) \<Rightarrow>
          thenParse (parse_equality ts n c1) (\<lambda>r c2.
            and_loop ts n (Binary e (parser_previous ts c1) r) c2)
      | (False, c1) \<Rightarrow> Some (Inr (e, c1)))"
| "parse_equality ts 0 c = None"
| "parse_equality ts (Suc n) c =
     thenParse (parse_comparison ts n c) (\<lambda>e c1. equality_loop ts n e c1)"
| "equality_loop ts 0 e c = None"
| "equality_loop ts (Suc n) e c =
     (case parser_match ts c [NOT_EQUAL, EQUAL] of
        (True, c1) \<Rightarrow>
          thenParse (parse_comparison ts n c1) (\<lambda>r c2.
            equality_loop ts n (Binary e (parser_previous ts c1) r) c2)
      | (False, c1) \<Rightarrow> Some (Inr (e, c1)))"
| "parse_comparison ts 0 c = None"
| "parse_comparison ts (Suc n) c =
     thenParse (parse_term ts n c) (\<lambda>e c1. comparison_loop ts n e c1)"
| "comparison_loop ts 0 e c = None"
| "comparison_loop ts (Suc n) e c =
     (case parser_match ts c [GREATER, GREATER_EQUAL, LESS, LESS_EQUAL] of
        (True, c1) \<Rightarrow>
          thenParse (parse_term ts n c1) (\<lambda>r c2.
            comparison_loop ts n (Binary e (parser_previous ts c1) r) c2)
      | (False, c1) \<Rightarrow> Some (Inr (e, c1)))"
| "parse_term ts 0 c = None"
| "parse_term ts (Suc n) c =
     thenParse (parse_factor ts n c) (\<lambda>e c1. term_loop ts n e c1)"
| "term_loop ts 0 e c = None"
| "term_loop ts (Suc n) e c =
     (case parser_match ts c [MINUS, PLUS] of
        (True, c1) \<Rightarrow>
          thenParse (parse_factor ts n c1) (\<lambda>r c2.
            term_loop ts n (Binary e (parser_previous ts c1) r) c2)
      | (False, c1) \<Rightarrow> Some (Inr (e, c1)))"
| "parse_factor ts 0 c = None"
| "parse_factor ts (Suc n) c =
     thenParse (parse_unary ts n c) (\<lambda>e c1. factor_loop ts n e c1)"
| "factor_loop ts 0 e c = None"
| "factor_loop ts (Suc n) e c =
     (case parser_match ts c [DIVIDE, MULTIPLY, MODULO] of
        (True, c1) \<Rightarrow>
          thenParse (parse_unary ts n c1) (\<lambda>r c2.
            factor_loop ts n (Binary e (parser_previous ts c1) r) c2)
      | (False, c1) \<Rightarrow> Some (Inr (e, c1)))"
| "parse_unary ts 0 c = None"
| "parse_unary ts (Suc n) c =
     (case parser_match ts c [NOT, MINUS] of
        (True, c1) \<Rightarrow>
          thenParse (parse_unary ts n c1) (\<lambda>r c2.
            Some (Inr (Unary (parser_previous ts c1) r, c2)))
      | (False, c1) \<Rightarrow> parse_call ts n c1)"
| "parse_call ts 0 c = None"
| "parse_call ts (Suc n) c =
     thenParse (parse_primary ts n c) (\<lambda>e c1. call_loop ts n e c1)"
| "call_loop ts 0 e c = None"
| "call_loop ts (Suc n) e c =
     (case parser_match ts c [LEFT_PAREN] of
        (True, c1) \<Rightarrow> thenParse (finishCall ts n e c1) (\<lambda>e1 c2. call_loop ts n e1 c2)
      | (False, c1) \<Rightarrow> Some (Inr (e, c1)))"
| "finishCall ts 0 callee c = None"
| "finishCall ts (Suc n) callee c =
     thenParse
       (if \<not> parser_check ts c RIGHT_PAREN then finishCall_args ts n [] c
        else Some (Inr ([], c)))
       (\<lambda>args c1.
          thenParse (parser_consume ts c1 RIGHT_PAREN msg_need_paren_after_arguments)
            (\<lambda>paren c2. Some (Inr (Call callee paren args, c2))))"
| "finishCall_args ts 0 args c = None"
| "finishCall_args ts (Suc n) args c =
     (if length args \<ge> 255
      then Some (Inl (parser_error (parser_peek ts c) msg_too_many_parameters, c))
      else
        thenParse (parse_expression ts n c) (\<lambda>e c1.
          case parser_match ts c1 [COMMA] of
            (True, c2) \<Rightarrow> finishCall_args ts n (args @ [e]) c2
          | (False, c2) \<Rightarrow> Some (Inr (args @ [e], c2))))"
| "parse_primary ts 0 c = None"
| "parse_primary ts (Suc n) c =
     (if fst (parser_match ts c [FALSE])
      then Some (Inr (Literal (LBool False), snd (parser_match ts c [FALSE])))
      else if fst (parser_match ts c [TRUE])
      then Some (Inr (Literal (LBool True), snd (parser_match ts c [TRUE])))
      else if fst (parser_match ts c [NULL])
      then Some (Inr (Literal LNull, snd (parser_match ts c [NULL])))
      else if fst (parser_match ts c [NUMBER, STRING])
      then Some (Inr (Literal (literal (parser_previous ts (snd (parser_match ts c [NUMBER, STRING])))),
                      snd (parser_match ts c [NUMBER, STRING])))
      else if fst (parser_match ts c [LEFT_BRACKET])
      then
        thenParse
          (if \<not> parser_check ts (snd (parser_match ts c [LEFT_BRACKET])) RIGHT_BRACKET
           then array_elements ts n [] (snd (parser_match ts c [LEFT_BRACKET]))
           else Some (Inr ([], snd (parser_match ts c [LEFT_BRACKET]))))
          (\<lambda>elements c1.
             thenParse (parser_consume ts c1 RIGHT_BRACKET msg_need_bracket)
               (\<lambda>bracket c2. Some (Inr (Array elements, c2))))
      else if fst (parser_match ts c [IDENTIFIER])
      then Some (Inr (Variable (parser_previous ts (snd (parser_match ts c [IDENTIFIER]))),
                      snd (parser_match ts c [IDENTIFIER])))
      else if fst (parser_match ts c [LEFT_PAREN])
      then
        thenParse (parse_expression ts n (snd (parser_match ts c [LEFT_PAREN]))) (\<lambda>e c1.
          thenParse (parser_consume ts c1 RIGHT_PAREN msg_need_paren_after_expression)
            (\<lambda>paren c2. Some (Inr (Grouping e, c2))))
      else Some (Inl (parser_error (parser_peek ts c) msg_need_expression, c)))"
| "array_elements ts 0 elements c = None"
| "array_elements ts (Suc n) elements c =
     thenParse (parse_expression ts n c) (\<lambda>e c1.
       case parser_match ts c1 [COMMA] of
         (True, c2) \<Rightarrow> array_elements ts n (elements @ [e]) c2
       | (False, c2) \<Rightarrow> Some (Inr (elements @ [e], c2)))"
  by pat_completeness auto
termination
  by (relation "measure (case_sum (case_sum (case_sum (case_sum (\<lambda>(ts, n, x). n) (\<lambda>(ts, n, x). n)) (case_sum (\<lambda>(ts, n, x). n) (case_sum (\<lambda>(ts, n, x). n) (\<lambda>(ts, n, x). n)))) (case_sum (case_sum (\<lambda>(ts, n, x). n) (\<lambda>(ts, n, x). n)) (case_sum (\<lambda>(ts, n, x). n) (case_sum (\<lambda>(ts, n, x). n) (\<lambda>(ts, n, x). n))))) (case_sum (case_sum (case_sum (\<lambda>(ts, n, x). n) (\<lambda>(ts, n, x). n)) (case_sum (\<lambda>(ts, n, x). n) (case_sum (\<lambda>(ts, n, x). n) (\<lambda>(ts, n, x). n)))) (case_sum (case_sum (\<lambda>(ts, n, x). n) (case_sum (\<lambda>(ts, n, x). n) (\<lambda>(ts, n, x). n))) (case_sum (\<lambda>(ts, n, x). n) (case_sum (\<lambda>(ts, n, x). n) (\<lambda>(ts, n, x). n))))))") auto

subsection \<open>Declarations and statements\<close>

definition parse_letDeclaration :: "'n token list \<Rightarrow> nat \<Rightarrow> nat \<Rightarrow> ('n, 'n stmt) parsed" where
  "parse_letDeclaration ts n c =
     thenParse (parser_consume ts c IDENTIFIER msg_need_variable_name) (\<lambda>name c1.
       case parser_match ts c1 [ASSIGN] of
         (True, c2) \<Rightarrow>
           thenParse (parse_expression ts n c2) (\<lambda>e c3. Some (Inr (Let_stmt name (Some e), c3)))
       | (False, c2) \<Rightarrow> Some (Inr (Let_stmt name None, c2)))"

definition parse_returnStatement :: "'n token list \<Rightarrow> nat \<Rightarrow> nat \<Rightarrow> ('n, 'n stmt) parsed" where
  "parse_returnStatement ts n c =
     (if \<not> parser_check ts c RIGHT_BRACE
      then thenParse (parse_expression ts n c) (\<lambda>e c1.
             Some (Inr (Return (parser_previous ts c) (Some e), c1)))
      else Some (Inr (Return (parser_previous ts c) None, c)))"

definition parse_expressionStatement :: "'n token list \<Rightarrow> nat \<Rightarrow> nat \<Rightarrow> ('n, 'n stmt) parsed" where
  "parse_expressionStatement ts n c =
     thenParse (parse_expression ts n c) (\<lambda>e c1. Some (Inr (Expression e, c1)))"

text \<open>The \<open>catch\<close> clause of \<open>declaration\<close>: synchronize, then throw the error again.\<close>

definition catch_synchronize :: "'n token list \<Rightarrow> ('n, 'a) parsed \<Rightarrow> ('n, 'a) parsed" where
  "catch_synchronize ts m =
     (case m of
        None \<Rightarrow> None
      | Some (Inl (msg, c)) \<Rightarrow> Some (Inl (msg, synchronize ts c))
      | Some (Inr r) \<Rightarrow> Some (Inr r))"

function (sequential) parse_declaration ::
  "'n token list \<Rightarrow> nat \<Rightarrow> nat \<Rightarrow> ('n, 'n stmt) parsed"
and parse_function ::
  "'n token list \<Rightarrow> nat \<Rightarrow> nat \<Rightarrow> ('n, 'n stmt) parsed"
and function_parameters ::
  "'n token list \<Rightarrow> nat \<Rightarrow> 'n token list \<Rightarrow> nat \<Rightarrow> ('n, 'n token list) parsed"
and parse_statement ::
  "'n token list \<Rightarrow> nat \<Rightarrow> nat \<Rightarrow> ('n, 'n stmt) parsed"
and parse_ifStatement ::
  "'n token list \<Rightarrow> nat \<Rightarrow> nat \<Rightarrow> ('n, 'n stmt) parsed"
and parse_forStatement ::
  "'n token list \<Rightarrow> nat \<Rightarrow> nat \<Rightarrow> ('n, 'n stmt) parsed"
and parse_block ::
  "'n token list \<Rightarrow> nat \<Rightarrow> nat \<Rightarrow> ('n, 'n stmt list) parsed"
and block_loop ::
  "'n token list \<Rightarrow> nat \<Rightarrow> 'n stmt list \<Rightarrow> nat \<Rightarrow> ('n, 'n stmt list) parsed"
and parse_loop ::
  "'n token list \<Rightarrow> nat \<Rightarrow> 'n stmt list \<Rightarrow> nat \<Rightarrow> ('n, 'n stmt list) parsed"
where
  "parse_declaration ts 0 c = None"
| "parse_declaration ts (Suc n) c =
     catch_synchronize ts
       (case parser_match ts c [FUNCTION] of
          (True, c1) \<Rightarrow> parse_function ts n c1
        | (False, c1) \<Rightarrow>
            (case parser_match ts c1 [LET] of
               (True, c2) \<Rightarrow> parse_letDeclaration ts n c2
             | (False, c2) \<Rightarrow> parse_statement ts n c2))"
| "parse_function ts 0 c = None"
| "parse_function ts (Suc n) c =
     thenParse (parser_consume ts c IDENTIFIER msg_need_function_name) (\<lambda>name c1.
     thenParse (parser_consume ts c1 LEFT_PAREN msg_need_paren_after_name) (\<lambda>lp c2.
     thenParse
       (if \<not> parser_check ts c2 RIGHT_PAREN then function_parameters ts n [] c2
        else Some (Inr ([], c2)))
       (\<lambda>parameters c3.
     thenParse (parser_consume ts c3 RIGHT_PAREN msg_need_paren_after_parameters) (\<lambda>rp c4.
     thenParse (parser_consume ts c4 LEFT_BRACE msg_need_brace_for_body) (\<lambda>lb c5.
     thenParse (parse_block ts n c5) (\<lambda>body c6.
       Some (Inr (Function name parameters body, c6))))))))"
| "function_parameters ts 0 parameters c = None"
| "function_parameters ts (Suc n) parameters c =
     (if length parameters \<ge> 255
      then Some (Inl (parser_error (parser_peek ts c) msg_too_many_parameters, c))
      else
        thenParse (parser_consume ts c IDENTIFIER msg_need_parameter_name) (\<lambda>p c1.
          case parser_match ts c1 [COMMA] of
            (True, c2) \<Rightarrow> function_parameters ts n (parameters @ [p]) c2
          | (False, c2) \<Rightarrow> Some (Inr (parameters @ [p], c2))))"
| "parse_statement ts 0 c = None"
| "parse_statement ts (Suc n) c =
     (case parser_match ts c [IF] of
        (True, c1) \<Rightarrow> parse_ifStatement ts n c1
      | (False, c1) \<Rightarrow>
     (case parser_match ts c1 [FOR] of
        (True, c2) \<Rightarrow> parse_forStatement ts n c2
      | (False, c2) \<Rightarrow>
     (case parser_match ts c2 [RETURN] of
        (True, c3) \<Rightarrow> parse_returnStatement ts n c3
      | (False, c3) \<Rightarrow>
     (case parser_match ts c3 [LEFT_BRACE] of
        (True, c4) \<Rightarrow> thenParse (parse_block ts n c4) (\<lambda>sts c5. Some (Inr (Block sts, c5)))
      | (False, c4) \<Rightarrow> parse_expressionStatement ts n c4))))"
| "parse_ifStatement ts 0 c = None"
| "parse_ifStatement ts (Suc n) c =
     thenParse (parser_consume ts c LEFT_PAREN msg_need_paren_after_if) (\<lambda>lp c1.
     thenParse (parse_expression ts n c1) (\<lambda>condition c2.
     thenParse (parser_consume ts c2 RIGHT_PAREN msg_need_paren_after_condition) (\<lambda>rp c3.
     thenParse (parse_statement ts n c3) (\<lambda>thenBranch c4.
       case parser_match ts c4 [ELSE] of
         (True, c5) \<Rightarrow>
           thenParse (parse_statement ts n c5) (\<lambda>elseBranch c6.
             Some (Inr (If_stmt condition thenBranch (Some elseBranch), c6)))
       | (False, c5) \<Rightarrow> Some (Inr (If_stmt condition thenBranch None, c5))))))"
| "parse_forStatement ts 0 c = None"
| "parse_forStatement ts (Suc n) c =
     thenParse (parser_consume ts c IDENTIFIER msg_need_loop_variable) (\<lambda>variable c1.
     thenParse (parser_consume ts c1 IN msg_need_in) (\<lambda>kw c2.
     thenParse (parse_expression ts n c2) (\<lambda>iterable c3.
     thenParse (parse_statement ts n c3) (\<lambda>body c4.
       Some (Inr (For variable iterable body, c4))))))"
| "parse_block ts 0 c = None"
| "parse_block ts (Suc n) c =
     block_loop ts n [] c"
| "block_loop ts 0 statements c = None"
| "block_loop ts (Suc n) statements c =
     (if \<not> parser_check ts c RIGHT_BRACE \<and> \<not> parser_isAtEnd ts c
      then thenParse (parse_declaration ts n c) (\<lambda>d c1. block_loop ts n (statements @ [d]) c1)
      else thenParse (parser_consume ts c RIGHT_BRACE msg_need_brace_after_block) (\<lambda>rb c1.
             Some (Inr (statements, c1))))"
| "parse_loop ts 0 statements c = None"
| "parse_loop ts (Suc n) statements c =
     (if \<not> parser_isAtEnd ts c
      then thenParse (parse_declaration ts n c) (\<lambda>d c1. parse_loop ts n (statements @ [d]) c1)
      else Some (Inr (statements, c)))"
  by pat_completeness auto
termination
  by (relation "measure (case_sum (case_sum (case_sum (\<lambda>(ts, n, x). n) (\<lambda>(ts, n, x). n)) (case_sum (\<lambda>(ts, n, x). n) (\<lambda>(ts, n, x). n))) (case_sum (case_sum (\<lambda>(ts, n, x). n) (\<lambda>(ts, n, x). n)) (case_sum (\<lambda>(ts, n, x). n) (case_sum (\<lambda>(ts, n, x). n) (\<lambda>(ts, n, x). n)))))") auto


text \<open>\<open>parse()\<close>: the declarations up to the end of the input, or the first error.\<close>

definition parse :: "'n token list \<Rightarrow> nat \<Rightarrow> (jsstring + 'n stmt list) option" where
  "parse ts n =
     (case parse_loop ts n [] 0 of
        None \<Rightarrow> None
      | Some (Inl (msg, c)) \<Rightarrow> Some (Inl msg)
      | Some (Inr (statements, c)) \<Rightarrow> Some (Inr statements))"

section \<open>Runtime values, exceptions and environments (interpreter.ts)\<close>

text \<open>
  A value is \<open>null\<close>, a boolean, a number, a string, an array, an instance of
  \<open>VSFunction\<close> (its declaration and the address of its closure) or one of the four
  built-in objects that the constructor of the interpreter makes. Arrays and functions
  are objects: \<open>===\<close> compares their identity, which is the first field here, the number
  of the allocation that made the object. No operation of the language changes an array.
\<close>

datatype builtin = BuiltinOutput | BuiltinRange | BuiltinLength | BuiltinType

datatype 'n val =
    VNull
  | VBoolean bool
  | VNumber 'n
  | VString jsstring
  | VArray nat "'n val list"
  | VSFunction nat "'n token" "'n token list" "'n stmt list" nat
  | VBuiltin builtin

text \<open>What a \<open>throw\<close> can carry: a \<open>RuntimeError\<close> (a token and a message), the
  \<open>ReturnValue\<close> of a return statement, or an \<open>Error\<close> that is not a \<open>RuntimeError\<close>
  (made by \<open>new Error\<close>, or raised by the engine).\<close>

datatype 'n thrown =
    RuntimeError "'n token" jsstring
  | ReturnValue "'n val"
  | Error jsstring

text \<open>An \<open>Environment\<close> object: its map and its enclosing environment. The objects
  live in a store, a list indexed by address; \<open>enclosing\<close> is an address or \<open>null\<close>.\<close>

text \<open>(The field \<open>values\<close> of the source is \<open>vals\<close> here.)\<close>

record 'n environment =
  vals :: "jsstring \<rightharpoonup> 'n val"
  enclosing :: "nat option"

definition new_Environment :: "nat option \<Rightarrow> 'n environment" where
  "new_Environment e = \<lparr>vals = Map.empty, enclosing = e\<rparr>"

definition msg_undefined_variable :: "jsstring \<Rightarrow> jsstring" where
  "msg_undefined_variable name =
     [0x672A, 0x5B9A, 0x4E49, 0x7684, 0x53D8, 0x91CF, 32, 39] @ name @ [39]"

definition env_define :: "nat \<Rightarrow> jsstring \<Rightarrow> 'n val \<Rightarrow> 'n environment list \<Rightarrow> 'n environment list" where
  "env_define a name v h = h[a := (h ! a)\<lparr>vals := (vals (h ! a))(name \<mapsto> v)\<rparr>]"

text \<open>\<open>assign\<close> and \<open>get\<close> recurse along \<open>enclosing\<close>. In a store that no run can build
  the chain may be a cycle; the walk does not return then.\<close>

partial_function (option) assign ::
  "'n environment list \<Rightarrow> nat \<Rightarrow> 'n token \<Rightarrow> 'n val \<Rightarrow> ('n thrown + 'n environment list) option"
where
  "assign h a name v =
     (if vals (h ! a) (lexeme name) \<noteq> None
      then Some (Inr (h[a := (h ! a)\<lparr>vals := (vals (h ! a))(lexeme name \<mapsto> v)\<rparr>]))
      else if enclosing (h ! a) \<noteq> None
      then assign h (the (enclosing (h ! a))) name v
      else Some (Inl (RuntimeError name (msg_undefined_variable (lexeme name)))))"

partial_function (option) get ::
  "'n environment list \<Rightarrow> nat \<Rightarrow> 'n token \<Rightarrow> ('n thrown + 'n val) option"
where
  "get h a name =
     (if vals (h ! a) (lexeme name) \<noteq> None
      then Some (Inr (the (vals (h ! a) (lexeme name))))
      else if enclosing (h ! a) \<noteq> None
      then get h (the (enclosing (h ! a))) name
      else Some (Inl (RuntimeError name (msg_undefined_variable (lexeme name)))))"

section \<open>The interpreter (interpreter.ts)\<close>

text \<open>
  The state of an \<open>Interpreter\<close>: the store of environments (the globals are at address
  \<open>globals\<close>), the field \<open>environment\<close>, what \<open>console.log\<close> has been called with so
  far, and the number of array and function objects allocated so far.
\<close>

record 'n interpreter =
  heap :: "'n environment list"
  globals :: nat
  environment :: nat
  stdout :: "'n val list list"
  allocated :: nat

text \<open>
  An evaluation returns a value or throws, and leaves a state in both cases. It may also
  not return at all (a script can loop or recurse for ever): every function of the tree
  walk takes a bound on the depth of its calls and gives \<open>None\<close> when the bound is
  reached.
\<close>

type_synonym ('n, 'a) outcome = "(('n thrown + 'a) \<times> 'n interpreter) option"

definition andThen ::
  "('n, 'a) outcome \<Rightarrow> ('a \<Rightarrow> 'n interpreter \<Rightarrow> ('n, 'b) outcome) \<Rightarrow> ('n, 'b) outcome" where
  "andThen m f =
     (case m of
        None \<Rightarrow> None
      | Some (Inl e, s) \<Rightarrow> Some (Inl e, s)
      | Some (Inr v, s) \<Rightarrow> f v s)"

definition msg_operand_number :: jsstring where
  "msg_operand_number = [0x64CD, 0x4F5C, 0x6570, 0x5FC5, 0x987B, 0x662F, 0x6570, 0x5B57]"

definition msg_operands_number_or_string :: jsstring where
  "msg_operands_number_or_string =
     [0x64CD, 0x4F5C, 0x6570, 0x5FC5, 0x987B, 0x90FD, 0x662F, 0x6570, 0x5B57, 0x6216, 0x90FD,
      0x662F, 0x5B57, 0x7B26, 0x4E32]"

definition msg_division_by_zero :: jsstring where
  "msg_division_by_zero = [0x9664, 0x6570, 0x4E0D, 0x80FD, 0x4E3A, 0x96F6]"

definition msg_only_functions :: jsstring where
  "msg_only_functions = [0x53EA, 0x80FD, 0x8C03, 0x7528, 0x51FD, 0x6570]"

definition msg_arity :: "nat \<Rightarrow> nat \<Rightarrow> jsstring" where
  "msg_arity n m =
     [0x671F, 0x671B, 32] @ showNat n @ [32, 0x4E2A, 0x53C2, 0x6570, 0x4F46, 0x5F97, 0x5230, 32]
     @ showNat m @ [32, 0x4E2A]"

definition msg_for_needs_array :: jsstring where
  "msg_for_needs_array =
     [39, 0x5BF9, 0x4E8E, 39, 32, 0x5FAA, 0x73AF, 0x9700, 0x8981, 0x4E00, 0x4E2A, 0x6570, 0x7EC4]"

definition msg_range_arguments :: jsstring where
  "msg_range_arguments =
     [0x8303, 0x56F4, 0x51FD, 0x6570, 0x9700, 0x8981, 0x4E24, 0x4E2A, 0x6570, 0x5B57, 0x53C2,
      0x6570]"

definition msg_length_argument :: jsstring where
  "msg_length_argument =
     [0x957F, 0x5EA6, 0x51FD, 0x6570, 0x9700, 0x8981, 0x6570, 0x7EC4, 0x6216, 0x5B57, 0x7B26,
      0x4E32, 0x53C2, 0x6570]"

definition isTruthy :: "'n val \<Rightarrow> bool" where
  "isTruthy object = (case object of VNull \<Rightarrow> False | VBoolean b \<Rightarrow> b | _ \<Rightarrow> True)"

text \<open>\<open>a === b\<close>: by value on primitives, by identity on objects.\<close>

fun strict_equal :: "'n host \<Rightarrow> 'n val \<Rightarrow> 'n val \<Rightarrow> bool" where
  "strict_equal H VNull VNull = True"
| "strict_equal H (VBoolean a) (VBoolean b) = (a = b)"
| "strict_equal H (VNumber a) (VNumber b) = num_eq H a b"
| "strict_equal H (VString a) (VString b) = (a = b)"
| "strict_equal H (VArray i xs) (VArray j ys) = (i = j)"
| "strict_equal H (VSFunction i nm ps body c) (VSFunction j nm' ps' body' c') = (i = j)"
| "strict_equal H (VBuiltin a) (VBuiltin b) = (a = b)"
| "strict_equal H a b = False"

definition isEqual :: "'n host \<Rightarrow> 'n val \<Rightarrow> 'n val \<Rightarrow> bool" where
  "isEqual H a b =
     (if a = VNull \<and> b = VNull then True
      else if a = VNull then False
      else strict_equal H a b)"

text \<open>The two checks return nothing or throw; on success the operands are known to be
  numbers, and the model hands back the numbers.\<close>

definition checkNumberOperand :: "'n token \<Rightarrow> 'n val \<Rightarrow> 'n thrown + 'n" where
  "checkNumberOperand operator operand =
     (case operand of
        VNumber a \<Rightarrow> Inr a
      | _ \<Rightarrow> Inl (RuntimeError operator msg_operand_number))"

definition checkNumberOperands :: "'n token \<Rightarrow> 'n val \<Rightarrow> 'n val \<Rightarrow> 'n thrown + 'n \<times> 'n" where
  "checkNumberOperands operator left right =
     (case (left, right) of
        (VNumber a, VNumber b) \<Rightarrow> Inr (a, b)
      | _ \<Rightarrow> Inl (RuntimeError operator msg_operand_number))"

text \<open>The \<open>switch\<close> of \<open>visitBinaryExpr\<close>, after both operands have been evaluated.\<close>

definition binaryOp :: "'n host \<Rightarrow> 'n token \<Rightarrow> 'n val \<Rightarrow> 'n val \<Rightarrow> 'n thrown + 'n val" where
  "binaryOp H operator left right =
     (case type operator of
        MINUS \<Rightarrow>
          (case checkNumberOperands operator left right of
             Inl e \<Rightarrow> Inl e | Inr (a, b) \<Rightarrow> Inr (VNumber (num_sub H a b)))
      | PLUS \<Rightarrow>
          (case (left, right) of
             (VNumber a, VNumber b) \<Rightarrow> Inr (VNumber (num_add H a b))
           | (VString a, VString b) \<Rightarrow> Inr (VString (a @ b))
           | _ \<Rightarrow> Inl (RuntimeError operator msg_operands_number_or_string))
      | DIVIDE \<Rightarrow>
          (case checkNumberOperands operator left right of
             Inl e \<Rightarrow> Inl e
           | Inr (a, b) \<Rightarrow>
               if num_eq H b (num_of_nat H 0)
               then Inl (RuntimeError operator msg_division_by_zero)
               else Inr (VNumber (num_div H a b)))
      | MULTIPLY \<Rightarrow>
          (case checkNumberOperands operator left right of
             Inl e \<Rightarrow> Inl e | Inr (a, b) \<Rightarrow> Inr (VNumber (num_mul H a b)))
      | MODULO \<Rightarrow>
          (case checkNumberOperands operator left right of
             Inl e \<Rightarrow> Inl e | Inr (a, b) \<Rightarrow> Inr (VNumber (num_mod H a b)))
      | GREATER \<Rightarrow>
          (case checkNumberOperands operator left right of
             Inl e \<Rightarrow> Inl e | Inr (a, b) \<Rightarrow> Inr (VBoolean (num_greater H a b)))
      | GREATER_EQUAL \<Rightarrow>
          (case checkNumberOperands operator left right of
             Inl e \<Rightarrow> Inl e | Inr (a, b) \<Rightarrow> Inr (VBoolean (num_greater_eq H a b)))
      | LESS \<Rightarrow>
          (case checkNumberOperands operator left right of
             Inl e \<Rightarrow> Inl e | Inr (a, b) \<Rightarrow> Inr (VBoolean (num_less H a b)))
      | LESS_EQUAL \<Rightarrow>
          (case checkNumberOperands operator left right of
             Inl e \<Rightarrow> Inl e | Inr (a, b) \<Rightarrow> Inr (VBoolean (num_less_eq H a b)))
      | EQUAL \<Rightarrow> Inr (VBoolean (isEqual H left right))
      | NOT_EQUAL \<Rightarrow> Inr (VBoolean (\<not> isEqual H left right))
      | AND \<Rightarrow> Inr (VBoolean (isTruthy left \<and> isTruthy right))
      | OR \<Rightarrow> Inr (VBoolean (isTruthy left \<or> isTruthy right))
      | _ \<Rightarrow> Inr VNull)"

definition unaryOp :: "'n host \<Rightarrow> 'n token \<Rightarrow> 'n val \<Rightarrow> 'n thrown + 'n val" where
  "unaryOp H operator right =
     (case type operator of
        MINUS \<Rightarrow>
          (case checkNumberOperand operator right of
             Inl e \<Rightarrow> Inl e | Inr a \<Rightarrow> Inr (VNumber (num_neg H a)))
      | NOT \<Rightarrow> Inr (VBoolean (\<not> isTruthy right))
      | _ \<Rightarrow> Inr VNull)"

definition literal_value :: "'n lit \<Rightarrow> 'n val" where
  "literal_value l =
     (case l of LNull \<Rightarrow> VNull | LBool b \<Rightarrow> VBoolean b | LNumber x \<Rightarrow> VNumber x
      | LString x \<Rightarrow> VString x)"

subsection \<open>Callables and the built-in functions\<close>

text \<open>
  \<open>(callee as VSCallable).call\<close> reads a property: the engine throws a \<open>TypeError\<close>
  when the callee is \<open>null\<close>; any other value has the property or gives \<open>undefined\<close>.
  Only instances of \<open>VSFunction\<close> and the built-in objects have \<open>call\<close> and \<open>arity\<close>.
\<close>

definition call_property :: "'n host \<Rightarrow> 'n val \<Rightarrow> 'n thrown + bool" where
  "call_property H callee =
     (case callee of
        VNull \<Rightarrow> Inl (Error (engine_message H NullPropertyRead))
      | VSFunction i nm ps body c \<Rightarrow> Inr True
      | VBuiltin b \<Rightarrow> Inr True
      | _ \<Rightarrow> Inr False)"

definition arity :: "'n val \<Rightarrow> nat option" where
  "arity func =
     (case func of
        VSFunction i nm ps body c \<Rightarrow> Some (length ps)
      | VBuiltin BuiltinOutput \<Rightarrow> Some 1
      | VBuiltin BuiltinRange \<Rightarrow> Some 2
      | VBuiltin BuiltinLength \<Rightarrow> Some 1
      | VBuiltin BuiltinType \<Rightarrow> Some 1
      | _ \<Rightarrow> None)"

text \<open>The tag strings of the built-in that names the type of its argument.\<close>

definition tag_array :: jsstring where "tag_array = [0x6570, 0x7EC4]"
definition tag_number :: jsstring where "tag_number = [0x6570, 0x5B57]"
definition tag_string :: jsstring where "tag_string = [0x5B57, 0x7B26, 0x4E32]"
definition tag_boolean :: jsstring where "tag_boolean = [0x5E03, 0x5C14]"
definition tag_null :: jsstring where "tag_null = [0x7A7A]"
definition tag_function :: jsstring where "tag_function = [0x51FD, 0x6570]"
definition tag_unknown :: jsstring where "tag_unknown = [0x672A, 0x77E5]"

text \<open>
  The \<open>call\<close> of the four built-in objects: output (\<open>console.log\<close> of the arguments),
  range (\<open>Array.from\<close> of a length and an index function; the engine refuses a length of
  \<open>2^32\<close> or more), length, and type. An argument that is missing is \<open>undefined\<close>, which
  is neither a number, a string nor an array.
\<close>

definition callBuiltin ::
  "'n host \<Rightarrow> builtin \<Rightarrow> 'n val list \<Rightarrow> 'n interpreter \<Rightarrow> ('n thrown + 'n val) \<times> 'n interpreter"
where
  "callBuiltin H b args s =
     (case b of
        BuiltinOutput \<Rightarrow> (Inr VNull, s\<lparr>stdout := stdout s @ [args]\<rparr>)
      | BuiltinRange \<Rightarrow>
          (case args of
             VNumber start_arg # VNumber end_arg # rest \<Rightarrow>
               (let len = num_to_length H (num_sub H end_arg start_arg) in
                if len > 4294967295
                then (Inl (Error (engine_message H InvalidArrayLength)), s)
                else (Inr (VArray (allocated s)
                             (map (\<lambda>i. VNumber (num_add H start_arg (num_of_nat H i))) [0..<len])),
                      s\<lparr>allocated := allocated s + 1\<rparr>))
           | _ \<Rightarrow> (Inl (Error msg_range_arguments), s))
      | BuiltinLength \<Rightarrow>
          (case args of
             VArray i xs # rest \<Rightarrow> (Inr (VNumber (num_of_nat H (length xs))), s)
           | VString x # rest \<Rightarrow> (Inr (VNumber (num_of_nat H (length x))), s)
           | _ \<Rightarrow> (Inl (Error msg_length_argument), s))
      | BuiltinType \<Rightarrow>
          (case args of
             VArray i xs # rest \<Rightarrow> (Inr (VString tag_array), s)
           | VNumber x # rest \<Rightarrow> (Inr (VString tag_number), s)
           | VString x # rest \<Rightarrow> (Inr (VString tag_string), s)
           | VBoolean x # rest \<Rightarrow> (Inr (VString tag_boolean), s)
           | VNull # rest \<Rightarrow> (Inr (VString tag_null), s)
           | VSFunction i nm ps body c # rest \<Rightarrow> (Inr (VString tag_function), s)
           | _ \<Rightarrow> (Inr (VString tag_unknown), s)))"

text \<open>The loop of \<open>VSFunction.call\<close> that defines the parameters, in order, in the new
  environment. \<open>visitCallExpr\<close> has checked that there are as many arguments as
  parameters.\<close>

fun bind_params ::
  "nat \<Rightarrow> 'n token list \<Rightarrow> 'n val list \<Rightarrow> 'n environment list \<Rightarrow> 'n environment list" where
  "bind_params a (p # ps) (v # vs) h = bind_params a ps vs (env_define a (lexeme p) v h)"
| "bind_params a ps vs h = h"

subsection \<open>The tree walk\<close>

text \<open>
  \<open>evaluate\<close> and \<open>execute\<close> are the visitor methods, one equation for each class of
  node. \<open>evaluateAll\<close> is \<open>map(arg => this.evaluate(arg))\<close>, \<open>executeAll\<close> the loop
  \<open>for (const statement of statements) this.execute(statement)\<close>, \<open>forEach\<close> the loop
  of \<open>visitForStmt\<close> and \<open>whileLoop\<close> the loop of \<open>visitWhileStmt\<close>. \<open>call\<close> is
  \<open>func.call(this, args)\<close>. A new \<open>Environment\<close> gets the next free address of the
  store. In \<open>executeBlock\<close> the \<open>finally\<close> clause restores the field \<open>environment\<close>
  however the statements ended. Every call lowers the bound on the depth, which is
  the measure of the termination proof.
\<close>

function (sequential) evaluate :: "'n host \<Rightarrow> nat \<Rightarrow> 'n expr \<Rightarrow> 'n interpreter \<Rightarrow> ('n, 'n val) outcome"
and evaluateAll ::
  "'n host \<Rightarrow> nat \<Rightarrow> 'n expr list \<Rightarrow> 'n interpreter \<Rightarrow> ('n, 'n val list) outcome"
and call ::
  "'n host \<Rightarrow> nat \<Rightarrow> 'n val \<Rightarrow> 'n val list \<Rightarrow> 'n interpreter \<Rightarrow> ('n, 'n val) outcome"
and execute :: "'n host \<Rightarrow> nat \<Rightarrow> 'n stmt \<Rightarrow> 'n interpreter \<Rightarrow> ('n, unit) outcome"
and executeAll :: "'n host \<Rightarrow> nat \<Rightarrow> 'n stmt list \<Rightarrow> 'n interpreter \<Rightarrow> ('n, unit) outcome"
and executeBlock ::
  "'n host \<Rightarrow> nat \<Rightarrow> 'n stmt list \<Rightarrow> nat \<Rightarrow> 'n interpreter \<Rightarrow> ('n, unit) outcome"
and forEach ::
  "'n host \<Rightarrow> nat \<Rightarrow> 'n token \<Rightarrow> 'n stmt \<Rightarrow> nat \<Rightarrow> 'n val list \<Rightarrow> 'n interpreter
     \<Rightarrow> ('n, unit) outcome"
and whileLoop ::
  "'n host \<Rightarrow> nat \<Rightarrow> 'n expr \<Rightarrow> 'n stmt \<Rightarrow> 'n interpreter \<Rightarrow> ('n, unit) outcome"
where
  "evaluate H 0 e s = None"
| "evaluate H (Suc n) (Binary l operator r) s =
     andThen (evaluate H n l s) (\<lambda>left s1.
     andThen (evaluate H n r s1) (\<lambda>right s2.
       Some (binaryOp H operator left right, s2)))"
| "evaluate H (Suc n) (Grouping e) s = evaluate H n e s"
| "evaluate H (Suc n) (Literal v) s = Some (Inr (literal_value v), s)"
| "evaluate H (Suc n) (Unary operator r) s =
     andThen (evaluate H n r s) (\<lambda>right s1. Some (unaryOp H operator right, s1))"
| "evaluate H (Suc n) (Variable name) s =
     (case get (heap s) (environment s) name of
        None \<Rightarrow> None
      | Some r \<Rightarrow> Some (r, s))"
| "evaluate H (Suc n) (Assign name e) s =
     andThen (evaluate H n e s) (\<lambda>v s1.
       case assign (heap s1) (environment s1) name v of
         None \<Rightarrow> None
       | Some (Inl err) \<Rightarrow> Some (Inl err, s1)
       | Some (Inr h) \<Rightarrow> Some (Inr v, s1\<lparr>heap := h\<rparr>))"
| "evaluate H (Suc n) (Call callee_expr paren arg_exprs) s =
     andThen (evaluate H n callee_expr s) (\<lambda>callee s1.
     andThen (evaluateAll H n arg_exprs s1) (\<lambda>args s2.
       case call_property H callee of
         Inl err \<Rightarrow> Some (Inl err, s2)
       | Inr False \<Rightarrow> Some (Inl (RuntimeError paren msg_only_functions), s2)
       | Inr True \<Rightarrow>
           (case arity callee of
              None \<Rightarrow> Some (Inl (Error (engine_message H NotAFunction)), s2)
            | Some k \<Rightarrow>
                if length args \<noteq> k
                then Some (Inl (RuntimeError paren (msg_arity k (length args))), s2)
                else call H n callee args s2)))"
| "evaluate H (Suc n) (Array elements) s =
     andThen (evaluateAll H n elements s) (\<lambda>vs s1.
       Some (Inr (VArray (allocated s1) vs), s1\<lparr>allocated := allocated s1 + 1\<rparr>))"
| "evaluateAll H 0 es s = None"
| "evaluateAll H (Suc n) [] s = Some (Inr [], s)"
| "evaluateAll H (Suc n) (e # es) s =
     andThen (evaluate H n e s) (\<lambda>v s1.
     andThen (evaluateAll H n es s1) (\<lambda>vs s2. Some (Inr (v # vs), s2)))"
| "call H 0 func args s = None"
| "call H (Suc n) (VSFunction i nm params body closure) args s =
     (let a = length (heap s);
          s1 = s\<lparr>heap := bind_params a params args
                             (heap s @ [new_Environment (Some closure)])\<rparr>
      in case executeBlock H n body a s1 of
           None \<Rightarrow> None
         | Some (Inl (ReturnValue v), s2) \<Rightarrow> Some (Inr v, s2)
         | Some (Inl err, s2) \<Rightarrow> Some (Inl err, s2)
         | Some (Inr u, s2) \<Rightarrow> Some (Inr VNull, s2))"
| "call H (Suc n) (VBuiltin b) args s = Some (callBuiltin H b args s)"
| "call H (Suc n) func args s = Some (Inl (Error (engine_message H NotAFunction)), s)"
| "execute H 0 st s = None"
| "execute H (Suc n) (Expression e) s =
     andThen (evaluate H n e s) (\<lambda>v s1. Some (Inr (), s1))"
| "execute H (Suc n) (Function name params body) s =
     (let func = VSFunction (allocated s) name params body (environment s)
      in Some (Inr (),
               s\<lparr>allocated := allocated s + 1,
                  heap := env_define (environment s) (lexeme name) func (heap s)\<rparr>))"
| "execute H (Suc n) (If_stmt condition thenBranch elseBranch) s =
     andThen (evaluate H n condition s) (\<lambda>c s1.
       if isTruthy c then execute H n thenBranch s1
       else (case elseBranch of
               Some eb \<Rightarrow> execute H n eb s1
             | None \<Rightarrow> Some (Inr (), s1)))"
| "execute H (Suc n) (Let_stmt name initializer) s =
     (case initializer of
        None \<Rightarrow> Some (Inr (), s\<lparr>heap := env_define (environment s) (lexeme name) VNull (heap s)\<rparr>)
      | Some e \<Rightarrow>
          andThen (evaluate H n e s) (\<lambda>v s1.
            Some (Inr (), s1\<lparr>heap := env_define (environment s1) (lexeme name) v (heap s1)\<rparr>)))"
| "execute H (Suc n) (Return keyword val_expr) s =
     (case val_expr of
        None \<Rightarrow> Some (Inl (ReturnValue VNull), s)
      | Some e \<Rightarrow> andThen (evaluate H n e s) (\<lambda>v s1. Some (Inl (ReturnValue v), s1)))"
| "execute H (Suc n) (While condition body) s = whileLoop H n condition body s"
| "execute H (Suc n) (Block statements) s =
     executeBlock H n statements (length (heap s))
       (s\<lparr>heap := heap s @ [new_Environment (Some (environment s))]\<rparr>)"
| "execute H (Suc n) (For variable iterable body) s =
     andThen (evaluate H n iterable s) (\<lambda>it s1.
       case it of
         VArray i xs \<Rightarrow>
           forEach H n variable body (length (heap s1)) xs
             (s1\<lparr>heap := heap s1 @ [new_Environment (Some (environment s1))]\<rparr>)
       | _ \<Rightarrow> Some (Inl (RuntimeError variable msg_for_needs_array), s1))"
| "executeAll H 0 sts s = None"
| "executeAll H (Suc n) [] s = Some (Inr (), s)"
| "executeAll H (Suc n) (st # sts) s =
     andThen (execute H n st s) (\<lambda>u s1. executeAll H n sts s1)"
| "executeBlock H 0 statements a s = None"
| "executeBlock H (Suc n) statements a s =
     (case executeAll H n statements (s\<lparr>environment := a\<rparr>) of
        None \<Rightarrow> None
      | Some (r, s1) \<Rightarrow> Some (r, s1\<lparr>environment := environment s\<rparr>))"
| "forEach H 0 variable body a xs s = None"
| "forEach H (Suc n) variable body a [] s = Some (Inr (), s)"
| "forEach H (Suc n) variable body a (x # xs) s =
     andThen (executeBlock H n [body] a (s\<lparr>heap := env_define a (lexeme variable) x (heap s)\<rparr>))
       (\<lambda>u s1. forEach H n variable body a xs s1)"
| "whileLoop H 0 condition body s = None"
| "whileLoop H (Suc n) condition body s =
     andThen (evaluate H n condition s) (\<lambda>c s1.
       if isTruthy c
       then andThen (execute H n body s1) (\<lambda>u s2. whileLoop H n condition body s2)
       else Some (Inr (), s1))"
  by pat_completeness auto
termination
  by (relation "measure (case_sum
        (case_sum (case_sum (\<lambda>(H, n, x). n) (\<lambda>(H, n, x). n)) (case_sum (\<lambda>(H, n, x). n) (\<lambda>(H, n, x). n)))
        (case_sum (case_sum (\<lambda>(H, n, x). n) (\<lambda>(H, n, x). n)) (case_sum (\<lambda>(H, n, x). n) (\<lambda>(H, n, x). n))))")
     auto

text \<open>\<open>interpret(statements)\<close> runs the statements and turns a \<open>RuntimeError\<close> into an \<open>Error\<close>
  whose message carries the line and the column of the token; anything else that was
  thrown is thrown again.\<close>

definition runtime_error_text :: "'n token \<Rightarrow> jsstring \<Rightarrow> jsstring" where
  "runtime_error_text tok msg =
     [0x8FD0, 0x884C, 0x65F6, 0x9519, 0x8BEF, 0xFF08, 0x7B2C, 32] @ showInt (line tok)
     @ [32, 0x884C, 0xFF0C, 0x7B2C, 32] @ showInt (column tok)
     @ [32, 0x5217, 0xFF09, 0xFF1A] @ msg"

definition interpret_statements ::
  "'n host \<Rightarrow> nat \<Rightarrow> 'n stmt list \<Rightarrow> 'n interpreter \<Rightarrow> ('n, unit) outcome" where
  "interpret_statements H n statements s =
     (case executeAll H n statements s of
        None \<Rightarrow> None
      | Some (Inl (RuntimeError tok msg), s1) \<Rightarrow> Some (Inl (Error (runtime_error_text tok msg)), s1)
      | Some (r, s1) \<Rightarrow> Some (r, s1))"

text \<open>The constructor: the globals hold the four built-in objects under their names
  (output, range, length, type), and the globals are the current environment.\<close>

definition name_output :: jsstring where "name_output = [0x8F93, 0x51FA]"
definition name_range :: jsstring where "name_range = [0x8303, 0x56F4]"
definition name_length :: jsstring where "name_length = [0x957F, 0x5EA6]"
definition name_type :: jsstring where "name_type = [0x7C7B, 0x578B]"

definition new_Interpreter :: "'n interpreter" where
  "new_Interpreter =
     \<lparr>heap =
        env_define 0 name_type (VBuiltin BuiltinType)
          (env_define 0 name_length (VBuiltin BuiltinLength)
            (env_define 0 name_range (VBuiltin BuiltinRange)
              (env_define 0 name_output (VBuiltin BuiltinOutput) [new_Environment None]))),
      globals = 0, environment = 0, stdout = [], allocated = 0\<rparr>"

section \<open>Running a source text (the class VScript)\<close>

text \<open>
  \<open>run\<close> scans, parses and interprets inside one \<open>try\<close>. Its \<open>catch\<close> clause writes one
  line to the error stream, in red: the message of what was caught when that is an
  \<open>Error\<close> (a \<open>RuntimeError\<close> is one), and a fixed text, that an unknown error occurred,
  when it is anything else. The result here is the lines written to the error stream
  and the state of the interpreter, which \<open>run\<close> keeps for the next source text.
\<close>

definition red :: "jsstring \<Rightarrow> jsstring" where
  "red text = [27] @ ascii ''[31m'' @ text @ [27] @ ascii ''[0m''"

definition msg_unknown_error :: jsstring where
  "msg_unknown_error = [0x53D1, 0x751F, 0x672A, 0x77E5, 0x9519, 0x8BEF]"

definition report :: "'n thrown \<Rightarrow> jsstring" where
  "report caught =
     (case caught of
        Error message \<Rightarrow> red message
      | RuntimeError tok message \<Rightarrow> red message
      | ReturnValue v \<Rightarrow> red msg_unknown_error)"

definition run ::
  "'n host \<Rightarrow> nat \<Rightarrow> jsstring \<Rightarrow> 'n interpreter \<Rightarrow> (jsstring list \<times> 'n interpreter) option" where
  "run H n src s =
     (case scanTokens H (new_Lexer src) of
        Inl message \<Rightarrow> Some ([red message], s)
      | Inr ts \<Rightarrow>
          (case parse ts n of
             None \<Rightarrow> None
           | Some (Inl message) \<Rightarrow> Some ([red message], s)
           | Some (Inr statements) \<Rightarrow>
               (case interpret_statements H n statements s of
                  None \<Rightarrow> None
                | Some (Inl caught, s1) \<Rightarrow> Some ([report caught], s1)
                | Some (Inr u, s1) \<Rightarrow> Some ([], s1))))"

section \<open>Notions of the specification\<close>

text \<open>
  An \<open>Environment\<close> is constructed around an environment that exists already, and
  \<open>enclosing\<close> is read-only: in every store that a run can build, the enclosing
  environment has a smaller address. In such a store the chain of scopes of an
  environment is a finite list, innermost scope first.
\<close>

definition wf_heap :: "'n environment list \<Rightarrow> bool" where
  "wf_heap h =
     list_all (\<lambda>a. case enclosing (h ! a) of None \<Rightarrow> True | Some b \<Rightarrow> b < a) [0..<length h]"

function scope_chain :: "'n environment list \<Rightarrow> nat \<Rightarrow> nat list" where
  "scope_chain h a =
     a # (case enclosing (h ! a) of
            None \<Rightarrow> []
          | Some b \<Rightarrow> if b < a then scope_chain h b else [])"
  by pat_completeness auto
termination
  by (relation "measure snd") auto

declare scope_chain.simps [simp del]

text \<open>The nearest scope of the chain that contains the name, if there is one.\<close>

definition nearest_scope :: "'n environment list \<Rightarrow> nat \<Rightarrow> jsstring \<Rightarrow> nat option" where
  "nearest_scope h a x = find (\<lambda>b. vals (h ! b) x \<noteq> None) (scope_chain h a)"

text \<open>An \<open>Error\<close> that is not a \<open>RuntimeError\<close> has one of five messages: the two of
  the built-ins for ranges and lengths, and the three of the engine.\<close>

definition plain_error_message :: "'n host \<Rightarrow> jsstring \<Rightarrow> bool" where
  "plain_error_message H m \<longleftrightarrow>
     m = msg_range_arguments \<or> m = msg_length_argument
     \<or> m = engine_message H NullPropertyRead \<or> m = engine_message H NotAFunction
     \<or> m = engine_message H InvalidArrayLength"

section \<open>A host for the examples\<close>

text \<open>
  The theorems hold for every host. The examples run on this one: exact rational
  arithmetic with a not-a-number, that is, doubles without rounding and overflow.
  The program never asks the host to divide by zero.
\<close>

definition exact_op :: "(rat \<Rightarrow> rat \<Rightarrow> 'a) \<Rightarrow> 'a \<Rightarrow> rat option \<Rightarrow> rat option \<Rightarrow> 'a" where
  "exact_op f d a b = (case (a, b) of (Some x, Some y) \<Rightarrow> f x y | _ \<Rightarrow> d)"

definition exact_fmod :: "rat \<Rightarrow> rat \<Rightarrow> rat option" where
  "exact_fmod x y =
     (if y = 0 then None
      else Some (x - y * of_int (if 0 \<le> x / y then \<lfloor>x / y\<rfloor> else \<lceil>x / y\<rceil>)))"

definition exact_parseFloat :: "jsstring \<Rightarrow> rat option" where
  "exact_parseFloat s =
     Some (of_nat (foldl (\<lambda>a d. 10 * a + (d - 48)) 0 (filter (\<lambda>c. c \<noteq> 46) s))
           / 10 ^ (length (dropWhile (\<lambda>c. c \<noteq> 46) s) - 1))"

definition exact_host :: "rat option host" where
  "exact_host =
     \<lparr>parseFloat = exact_parseFloat,
      num_add = exact_op (\<lambda>x y. Some (x + y)) None,
      num_sub = exact_op (\<lambda>x y. Some (x - y)) None,
      num_mul = exact_op (\<lambda>x y. Some (x * y)) None,
      num_div = exact_op (\<lambda>x y. if y = 0 then None else Some (x / y)) None,
      num_mod = exact_op exact_fmod None,
      num_neg = map_option uminus,
      num_less = exact_op (\<lambda>x y. x < y) False,
      num_less_eq = exact_op (\<lambda>x y. x \<le> y) False,
      num_greater = exact_op (\<lambda>x y. x > y) False,
      num_greater_eq = exact_op (\<lambda>x y. x \<ge> y) False,
      num_eq = exact_op (\<lambda>x y. x = y) False,
      num_of_nat = (\<lambda>n. Some (of_nat n)),
      num_to_length = (\<lambda>a. case a of None \<Rightarrow> 0 | Some x \<Rightarrow> min (nat \<lfloor>x\<rfloor>) (2 ^ 53 - 1)),
      engine_message = (\<lambda>e. case e of
          NullPropertyRead \<Rightarrow> ascii ''Cannot read properties of null''
        | NotAFunction \<Rightarrow> ascii ''func.call is not a function''
        | InvalidArrayLength \<Rightarrow> ascii ''Invalid array length'')\<rparr>"

definition example_token :: "TokenType \<Rightarrow> jsstring \<Rightarrow> int \<Rightarrow> int \<Rightarrow> 'n token" where
  "example_token ty text l c = \<lparr>type = ty, lexeme = text, literal = LNull, line = l, column = c\<rparr>"

text \<open>A store of two environments: the globals bind \<open>x\<close>, and an empty block is inside them.\<close>

definition example_heap :: "rat option environment list" where
  "example_heap =
     [\<lparr>vals = [[120] \<mapsto> VNumber (Some 1)], enclosing = None\<rparr>,
      \<lparr>vals = Map.empty, enclosing = Some 0\<rparr>]"

text \<open>The example: the globals bind \<open>x\<close> to 1 and \<open>f\<close> to a function declared in the
  globals whose body returns \<open>x\<close>; the caller is in a block that binds \<open>x\<close> to 2.\<close>

definition example_function :: "rat option val" where
  "example_function =
     VSFunction 0 (example_token IDENTIFIER [102] 1 1) []
       [Return (example_token RETURN [0x8FD4, 0x56DE] 1 7)
          (Some (Variable (example_token IDENTIFIER [120] 1 10)))] 0"

definition example_state :: "rat option interpreter" where
  "example_state =
     \<lparr>heap = [\<lparr>vals = [[120] \<mapsto> VNumber (Some 1), [102] \<mapsto> example_function],
               enclosing = None\<rparr>,
              \<lparr>vals = [[120] \<mapsto> VNumber (Some 2)], enclosing = Some 0\<rparr>],
      globals = 0, environment = 1, stdout = [], allocated = 1\<rparr>"

section \<open>Properties of the lexer\<close>

subsection \<open>Unfolding the loops of the lexer, one iteration at a time\<close>

lemma identifier_loop_step:
  "isAlphaNumeric (peek s) \<Longrightarrow> identifier_loop s = identifier_loop (snd (advance s))"
  by (subst identifier_loop.simps) simp

lemma identifier_loop_stop: "\<not> isAlphaNumeric (peek s) \<Longrightarrow> identifier_loop s = s"
  by (subst identifier_loop.simps) simp

lemma digits_step: "isDigit (peek s) \<Longrightarrow> digits s = digits (snd (advance s))"
  by (subst digits.simps) simp

lemma digits_stop: "\<not> isDigit (peek s) \<Longrightarrow> digits s = s"
  by (subst digits.simps) simp

lemma scanTokens_loop_step:
  "\<not> isAtEnd s \<Longrightarrow>
   scanTokens_loop H s =
     (case scanToken H (s\<lparr>start := current s\<rparr>) of
        Inl e \<Rightarrow> Inl e
      | Inr s' \<Rightarrow> scanTokens_loop H s')"
  by (subst scanTokens_loop.simps) simp

lemma scanTokens_loop_stop: "isAtEnd s \<Longrightarrow> scanTokens_loop H s = Inr s"
  by (subst scanTokens_loop.simps) simp

lemmas lexer_eval =
  scanTokens_def scanTokens_loop_step scanTokens_loop_stop scanToken_def advance_def
  isAtEnd_def new_Lexer_def charAt_def ascii_def isDigit_def isAlpha_def isAlphaNumeric_def
  scan_identifier_def identifier_loop_step identifier_loop_stop number_def digits_step
  digits_stop match_def peek_def peekNext_def addToken_def substring_def lexer_keywords_def
  Let_def

text \<open>One step of the scanner, by the code unit under the cursor.\<close>

lemma scanToken_cjk:
  assumes "0x4E00 \<le> x" "x \<le> 0x9FA5" "current s < length (source s)" "source s ! current s = x"
  shows "scanToken H s = Inr (scan_identifier (snd (advance s)))"
  using assms
  by (simp add: scanToken_def advance_def charAt_def ascii_def isDigit_def isAlpha_def)

lemma scanToken_word:
  "current s < length (source s) \<Longrightarrow> 0x4E00 \<le> source s ! current s \<Longrightarrow>
   source s ! current s \<le> 0x9FA5 \<Longrightarrow>
   scanToken H s = Inr (scan_identifier (snd (advance s)))"
  by (rule scanToken_cjk) simp_all

lemma scanToken_char:
  assumes "current s < length (source s)"
  shows "source s ! current s = 32 \<Longrightarrow> scanToken H s = Inr (snd (advance s))"
    and "source s ! current s = 40 \<Longrightarrow>
         scanToken H s = Inr (addToken LEFT_PAREN LNull (snd (advance s)))"
    and "source s ! current s = 41 \<Longrightarrow>
         scanToken H s = Inr (addToken RIGHT_PAREN LNull (snd (advance s)))"
  using assms
  by (simp_all add: scanToken_def advance_def charAt_def ascii_def)

lemmas lexer_steps =
  scanTokens_def scanTokens_loop_step scanTokens_loop_stop scanToken_word scanToken_char
  advance_def isAtEnd_def new_Lexer_def charAt_def ascii_def isDigit_def isAlpha_def
  isAlphaNumeric_def scan_identifier_def identifier_loop_step identifier_loop_stop
  peek_def addToken_def substring_def lexer_keywords_def Let_def

section \<open>Keywords and identifiers\<close>

text \<open>What \<open>identifier()\<close> does for every lexeme: the kind of the token it adds is the
  entry of the keyword map for the lexeme, and \<open>IDENTIFIER\<close> when the map has none.\<close>

lemma scan_identifier_kind:
  "type (last (tokens (scan_identifier s))) =
     (case map_of lexer_keywords (lexeme (last (tokens (scan_identifier s)))) of
        Some k \<Rightarrow> k
      | None \<Rightarrow> IDENTIFIER)"
  by (simp add: scan_identifier_def addToken_def Let_def)

lemma lexer_keywords_dom:
  "dom (map_of lexer_keywords) =
     {[0x51FD, 0x6570], [0x5982, 0x679C], [0x5426, 0x5219], [0x8FD4, 0x56DE], [0x5BF9, 0x4E8E],
      [0x5728], [0x5C31, 0x662F], [0x771F], [0x5047], [0x7A7A]}"
  by (auto simp: lexer_keywords_def dom_def split: if_splits)

text \<open>A source text that is one CJK code unit is scanned as one word.\<close>

lemma single_cjk_word:
  assumes "0x4E00 \<le> x" "x \<le> 0x9FA5"
  shows "scanTokens H (new_Lexer [x]) =
     Inr [\<lparr>type = (case map_of lexer_keywords [x] of Some k \<Rightarrow> k | None \<Rightarrow> IDENTIFIER),
           lexeme = [x], literal = LNull, line = 1, column = 1\<rparr>,
          \<lparr>type = EOF, lexeme = [], literal = LNull, line = 1, column = 2\<rparr>]"
proof -
  let ?s0 = "\<lparr>source = [x], tokens = [], start = 0, current = 0, cur_line = 1,
              cur_column = 1\<rparr> :: 'a lexer"
  let ?s1 = "\<lparr>source = [x],
              tokens = [\<lparr>type = (case map_of lexer_keywords [x] of Some k \<Rightarrow> k | None \<Rightarrow> IDENTIFIER),
                         lexeme = [x], literal = LNull, line = 1, column = 1\<rparr>],
              start = 0, current = 1, cur_line = 1, cur_column = 2\<rparr> :: 'a lexer"
  have "scanToken H ?s0 = Inr (scan_identifier (snd (advance ?s0)))"
    using assms by (intro scanToken_cjk[of x]) simp_all
  moreover have "scan_identifier (snd (advance ?s0)) = ?s1"
    by (simp add: scan_identifier_def advance_def identifier_loop_stop peek_def isAtEnd_def
        isAlphaNumeric_def isAlpha_def isDigit_def ascii_def addToken_def substring_def Let_def)
  ultimately have step: "scanToken H ?s0 = Inr ?s1"
    by simp
  have "scanTokens_loop H ?s0 = scanTokens_loop H ?s1"
    by (subst scanTokens_loop_step) (simp_all add: isAtEnd_def step)
  also have "\<dots> = Inr ?s1"
    by (rule scanTokens_loop_stop) (simp add: isAtEnd_def)
  finally show ?thesis
    by (simp add: scanTokens_def new_Lexer_def)
qed

text \<open>
  C1. The specification lists thirteen reserved words, among them U+5E76 (logical and),
  U+6216 (logical or) and U+975E (logical not), each to be given its own token kind. The
  keyword map of the lexer holds ten: the three logical words are missing from it,
  although the token kinds \<open>AND\<close>, \<open>OR\<close> and \<open>NOT\<close> are declared with exactly these
  strings as their values and the parser matches on them. Each of the three words, alone
  in a source text, is scanned as an identifier.
\<close>

theorem logical_words_scanned_as_identifiers:
  "scanTokens H (new_Lexer [0x5E76]) =
     Inr [\<lparr>type = IDENTIFIER, lexeme = [0x5E76], literal = LNull, line = 1, column = 1\<rparr>,
          \<lparr>type = EOF, lexeme = [], literal = LNull, line = 1, column = 2\<rparr>]
   \<and> scanTokens H (new_Lexer [0x6216]) =
     Inr [\<lparr>type = IDENTIFIER, lexeme = [0x6216], literal = LNull, line = 1, column = 1\<rparr>,
          \<lparr>type = EOF, lexeme = [], literal = LNull, line = 1, column = 2\<rparr>]
   \<and> scanTokens H (new_Lexer [0x975E]) =
     Inr [\<lparr>type = IDENTIFIER, lexeme = [0x975E], literal = LNull, line = 1, column = 1\<rparr>,
          \<lparr>type = EOF, lexeme = [], literal = LNull, line = 1, column = 2\<rparr>]"
  by (simp add: single_cjk_word lexer_keywords_def)

section \<open>Reasoning about the tree walk\<close>

lemma andThen_simps [simp]:
  "andThen None f = None"
  "andThen (Some (Inl e, s)) f = Some (Inl e, s)"
  "andThen (Some (Inr v, s)) f = f v s"
  by (simp_all add: andThen_def)

lemma andThen_eq_Some:
  "andThen m f = Some (r, s') \<longleftrightarrow>
     (\<exists>e. m = Some (Inl e, s') \<and> r = Inl e) \<or> (\<exists>v s1. m = Some (Inr v, s1) \<and> f v s1 = Some (r, s'))"
  by (auto simp: andThen_def split: option.splits sum.splits prod.splits)

lemma andThen_eq_None:
  "andThen m f = None \<longleftrightarrow> m = None \<or> (\<exists>v s1. m = Some (Inr v, s1) \<and> f v s1 = None)"
  by (auto simp: andThen_def split: option.splits sum.splits prod.splits)

section \<open>Environments\<close>

lemma assign_here:
  "vals (h ! a) (lexeme name) \<noteq> None \<Longrightarrow>
   assign h a name v = Some (Inr (h[a := (h ! a)\<lparr>vals := (vals (h ! a))(lexeme name \<mapsto> v)\<rparr>]))"
  by (subst assign.simps) simp

lemma assign_outward:
  "vals (h ! a) (lexeme name) = None \<Longrightarrow> enclosing (h ! a) = Some b \<Longrightarrow>
   assign h a name v = assign h b name v"
  by (subst assign.simps) simp

lemma assign_undefined:
  "vals (h ! a) (lexeme name) = None \<Longrightarrow> enclosing (h ! a) = None \<Longrightarrow>
   assign h a name v = Some (Inl (RuntimeError name (msg_undefined_variable (lexeme name))))"
  by (subst assign.simps) simp

lemma get_here:
  "vals (h ! a) (lexeme name) = Some v \<Longrightarrow> get h a name = Some (Inr v)"
  by (subst get.simps) simp

lemma get_outward:
  "vals (h ! a) (lexeme name) = None \<Longrightarrow> enclosing (h ! a) = Some b \<Longrightarrow>
   get h a name = get h b name"
  by (subst get.simps) simp

lemma get_undefined:
  "vals (h ! a) (lexeme name) = None \<Longrightarrow> enclosing (h ! a) = None \<Longrightarrow>
   get h a name = Some (Inl (RuntimeError name (msg_undefined_variable (lexeme name))))"
  by (subst get.simps) simp

section \<open>The globals\<close>

lemma new_Interpreter_fields [simp]:
  "environment new_Interpreter = 0" "globals new_Interpreter = 0"
  "stdout new_Interpreter = []" "allocated new_Interpreter = 0"
  "length (heap new_Interpreter) = 1"
  "enclosing (heap new_Interpreter ! 0) = None"
  by (simp_all add: new_Interpreter_def env_define_def new_Environment_def)

lemma new_Interpreter_vals:
  "vals (heap new_Interpreter ! 0) =
     [name_output \<mapsto> VBuiltin BuiltinOutput, name_range \<mapsto> VBuiltin BuiltinRange,
      name_length \<mapsto> VBuiltin BuiltinLength, name_type \<mapsto> VBuiltin BuiltinType]"
  by (simp add: new_Interpreter_def env_define_def new_Environment_def)

lemma get_global_builtin:
  "lexeme tok = name_output \<Longrightarrow> get (heap new_Interpreter) 0 tok = Some (Inr (VBuiltin BuiltinOutput))"
  "lexeme tok = name_range \<Longrightarrow> get (heap new_Interpreter) 0 tok = Some (Inr (VBuiltin BuiltinRange))"
  "lexeme tok = name_length \<Longrightarrow> get (heap new_Interpreter) 0 tok = Some (Inr (VBuiltin BuiltinLength))"
  "lexeme tok = name_type \<Longrightarrow> get (heap new_Interpreter) 0 tok = Some (Inr (VBuiltin BuiltinType))"
  by (rule get_here, simp add: new_Interpreter_vals name_output_def name_range_def
        name_length_def name_type_def)+

section \<open>The operators\<close>

lemma binaryOp_MODULO:
  "type operator = MODULO \<Longrightarrow>
   binaryOp H operator (VNumber a) (VNumber b) = Inr (VNumber (num_mod H a b))"
  by (simp add: binaryOp_def checkNumberOperands_def)

lemma binaryOp_DIVIDE_zero:
  "type operator = DIVIDE \<Longrightarrow> num_eq H b (num_of_nat H 0) \<Longrightarrow>
   binaryOp H operator (VNumber a) (VNumber b) = Inl (RuntimeError operator msg_division_by_zero)"
  by (simp add: binaryOp_def checkNumberOperands_def)

lemma msg_division_by_zero_distinct:
  "msg_division_by_zero \<noteq> msg_operand_number"
  "msg_division_by_zero \<noteq> msg_operands_number_or_string"
  by (simp_all add: msg_division_by_zero_def msg_operand_number_def
        msg_operands_number_or_string_def)

lemma checkNumberOperands_error:
  "checkNumberOperands operator l r = Inl e \<Longrightarrow> e = RuntimeError operator msg_operand_number"
  by (auto simp: checkNumberOperands_def split: val.splits)

lemma binaryOp_division_by_zero_only_DIVIDE:
  assumes "binaryOp H operator l r = Inl (RuntimeError tok msg_division_by_zero)"
  shows "type operator = DIVIDE"
  using assms msg_division_by_zero_distinct
  by (cases "type operator")
     (auto simp: binaryOp_def split: sum.splits val.splits if_splits prod.splits
           dest!: checkNumberOperands_error)

text \<open>
  C10. The quotient is guarded, the remainder is not: with number operands \<open>a\<close>
  and \<open>b\<close>, a binary expression whose operator is \<open>%\<close> evaluates to the
  number that the host's remainder gives for \<open>a\<close> and \<open>b\<close>, a zero \<open>b\<close> included,
  and so never throws.
\<close>

theorem modulo_evaluates_without_zero_check:
  assumes "type operator = MODULO"
    and "evaluate H n l s = Some (Inr (VNumber a), s1)"
    and "evaluate H n r s1 = Some (Inr (VNumber b), s2)"
  shows "evaluate H (Suc n) (Binary l operator r) s = Some (Inr (VNumber (num_mod H a b)), s2)"
  using assms by (simp add: binaryOp_MODULO)

theorem modulo_evaluates_without_zero_check_witness:
  "evaluate exact_host (Suc (Suc 0))
     (Binary (Literal (LNumber (Some 5))) (example_token MODULO (ascii ''%'') 1 3)
        (Literal (LNumber (Some 0))))
     new_Interpreter
   = Some (Inr (VNumber None), new_Interpreter)"
  using modulo_evaluates_without_zero_check
          [of "example_token MODULO (ascii ''%'') 1 3" exact_host "Suc 0"
              "Literal (LNumber (Some 5))" new_Interpreter "Some 5" new_Interpreter
              "Literal (LNumber (Some 0))" "Some 0" new_Interpreter]
  by (simp add: example_token_def literal_value_def exact_host_def exact_op_def exact_fmod_def)

text \<open>
  C6. A binary expression whose operator is the logical and, or the logical or, evaluates
  its left operand, then its right operand in the state the left one has left, whatever
  the left value is; what either operand throws is thrown; and the value is the boolean
  made from the truthiness of the two values.
\<close>

theorem logical_operators_evaluate_both_operands:
  assumes "type operator = AND \<or> type operator = OR"
  shows "evaluate H (Suc n) (Binary l operator r) s =
           andThen (evaluate H n l s) (\<lambda>left s1.
           andThen (evaluate H n r s1) (\<lambda>right s2.
             Some (Inr (VBoolean (if type operator = AND
                                  then isTruthy left \<and> isTruthy right
                                  else isTruthy left \<or> isTruthy right)), s2)))"
  using assms by (auto simp: binaryOp_def)

theorem logical_operators_evaluate_both_operands_witness:
  "evaluate exact_host (Suc (Suc (Suc (Suc 0))))
     (Binary (Literal (LBool False)) (example_token AND [0x5E76] 1 3)
        (Call (Variable (example_token IDENTIFIER name_output 1 5))
              (example_token RIGHT_PAREN (ascii '')'') 1 9)
              [Literal (LNumber (Some 1))]))
     new_Interpreter
   = Some (Inr (VBoolean False), new_Interpreter\<lparr>stdout := [[VNumber (Some 1)]]\<rparr>)"
  using logical_operators_evaluate_both_operands
          [of "example_token AND [0x5E76] 1 3" exact_host "Suc (Suc (Suc 0))"
              "Literal (LBool False)"
              "Call (Variable (example_token IDENTIFIER name_output 1 5))
                    (example_token RIGHT_PAREN (ascii '')'') 1 9)
                    [Literal (LNumber (Some 1))]"
              new_Interpreter]
  by (simp add: example_token_def literal_value_def get_global_builtin call_property_def
        arity_def callBuiltin_def isTruthy_def)

section \<open>Assignment along the chain of scopes\<close>

lemma wf_heap_enclosing:
  "wf_heap h \<Longrightarrow> a < length h \<Longrightarrow> enclosing (h ! a) = Some b \<Longrightarrow> b < a"
proof -
  assume w: "wf_heap h" and a: "a < length h" and e: "enclosing (h ! a) = Some b"
  from w a have "case enclosing (h ! a) of None \<Rightarrow> True | Some b \<Rightarrow> b < a"
    by (simp add: wf_heap_def list_all_iff)
  with e show "b < a" by simp
qed

lemma nearest_scope_here:
  "vals (h ! a) x \<noteq> None \<Longrightarrow> nearest_scope h a x = Some a"
  by (subst nearest_scope_def, subst scope_chain.simps) simp

lemma nearest_scope_outward:
  "vals (h ! a) x = None \<Longrightarrow> enclosing (h ! a) = Some b \<Longrightarrow> b < a \<Longrightarrow>
   nearest_scope h a x = nearest_scope h b x"
  by (simp add: nearest_scope_def scope_chain.simps[of h a])

lemma nearest_scope_none:
  "vals (h ! a) x = None \<Longrightarrow> enclosing (h ! a) = None \<Longrightarrow> nearest_scope h a x = None"
  by (simp add: nearest_scope_def scope_chain.simps[of h a])

lemma nearest_scope_bound:
  "nearest_scope h a x = Some b \<Longrightarrow> b \<le> a \<and> vals (h ! b) x \<noteq> None"
proof (induction a arbitrary: b rule: less_induct)
  case (less a)
  show ?case
  proof (cases "vals (h ! a) x = None")
    case False
    with less.prems show ?thesis by (simp add: nearest_scope_here)
  next
    case True
    show ?thesis
    proof (cases "enclosing (h ! a)")
      case None
      with True less.prems show ?thesis by (simp add: nearest_scope_none)
    next
      case (Some c)
      show ?thesis
      proof (cases "c < a")
        case lt: True
        with True Some less.prems have "nearest_scope h c x = Some b"
          by (simp add: nearest_scope_outward)
        from less.IH[OF lt this] lt show ?thesis by simp
      next
        case False
        with True Some less.prems show ?thesis
          by (simp add: nearest_scope_def scope_chain.simps[of h a])
      qed
    qed
  qed
qed

lemma assign_nearest_scope:
  assumes "wf_heap h" and "a < length h"
  shows "assign h a name v =
           Some (case nearest_scope h a (lexeme name) of
                   Some b \<Rightarrow> Inr (h[b := (h ! b)\<lparr>vals := (vals (h ! b))(lexeme name \<mapsto> v)\<rparr>])
                 | None \<Rightarrow> Inl (RuntimeError name (msg_undefined_variable (lexeme name))))"
  using assms(2)
proof (induction a rule: less_induct)
  case (less a)
  show ?case
  proof (cases "vals (h ! a) (lexeme name) = None")
    case False
    then show ?thesis by (simp add: assign_here nearest_scope_here)
  next
    case True
    show ?thesis
    proof (cases "enclosing (h ! a)")
      case None
      with True show ?thesis by (simp add: assign_undefined nearest_scope_none)
    next
      case (Some b)
      from wf_heap_enclosing[OF assms(1) less.prems Some] have lt: "b < a" .
      with less.prems have "b < length h" by simp
      from less.IH[OF lt this] True Some lt show ?thesis
        by (simp add: assign_outward nearest_scope_outward)
    qed
  qed
qed

text \<open>
  C8. In a store whose chains are finite, \<open>assign\<close> from any environment returns: it
  overwrites the binding of the name in the nearest scope of the chain that contains the
  name (the innermost scope itself when the name is bound there) and changes nothing
  else; when no scope of the chain contains the name it throws the \<open>RuntimeError\<close> for
  an undefined variable, with the name token. A store returned by \<open>assign\<close> has the
  same environments, each with the same names and the same enclosing environment: no
  binding is created.
\<close>

theorem assign_overwrites_nearest_binding:
  assumes "wf_heap h" and "a < length h"
  shows "assign h a name v =
           Some (case nearest_scope h a (lexeme name) of
                   Some b \<Rightarrow> Inr (h[b := (h ! b)\<lparr>vals := (vals (h ! b))(lexeme name \<mapsto> v)\<rparr>])
                 | None \<Rightarrow> Inl (RuntimeError name (msg_undefined_variable (lexeme name))))
         \<and> (\<forall>h'. assign h a name v = Some (Inr h') \<longrightarrow>
                length h' = length h
                \<and> (\<forall>i < length h. dom (vals (h' ! i)) = dom (vals (h ! i))
                                   \<and> enclosing (h' ! i) = enclosing (h ! i)))"
proof (intro conjI allI impI)
  show eq: "assign h a name v =
           Some (case nearest_scope h a (lexeme name) of
                   Some b \<Rightarrow> Inr (h[b := (h ! b)\<lparr>vals := (vals (h ! b))(lexeme name \<mapsto> v)\<rparr>])
                 | None \<Rightarrow> Inl (RuntimeError name (msg_undefined_variable (lexeme name))))"
    using assms by (rule assign_nearest_scope)
next
  fix h' assume r: "assign h a name v = Some (Inr h')"
  from r assign_nearest_scope[OF assms, of name v]
  obtain b where b: "nearest_scope h a (lexeme name) = Some b"
    and h': "h' = h[b := (h ! b)\<lparr>vals := (vals (h ! b))(lexeme name \<mapsto> v)\<rparr>]"
    by (auto split: option.splits)
  from nearest_scope_bound[OF b] have bound: "vals (h ! b) (lexeme name) \<noteq> None" by simp
  show "length h' = length h" by (simp add: h')
  fix i assume i: "i < length h"
  from bound i show "dom (vals (h' ! i)) = dom (vals (h ! i))"
    by (cases "i = b") (auto simp: h')
  from i show "enclosing (h' ! i) = enclosing (h ! i)"
    by (cases "i = b") (auto simp: h')
qed

theorem assign_overwrites_nearest_binding_witness:
  "wf_heap example_heap \<and> 1 < length example_heap
   \<and> assign example_heap 1 (example_token IDENTIFIER [120] 1 1) (VNumber (Some 2))
     = Some (Inr [\<lparr>vals = [[120] \<mapsto> VNumber (Some 2)], enclosing = None\<rparr>,
                  \<lparr>vals = Map.empty, enclosing = Some 0\<rparr>])
   \<and> assign example_heap 1 (example_token IDENTIFIER [121] 1 1) (VNumber (Some 2))
     = Some (Inl (RuntimeError (example_token IDENTIFIER [121] 1 1)
                    (msg_undefined_variable [121])))"
proof -
  have wf: "wf_heap example_heap" by (simp add: wf_heap_def example_heap_def)
  have len: "1 < length example_heap" by (simp add: example_heap_def)
  have x: "nearest_scope example_heap (Suc 0) [120] = Some 0"
    by (simp add: nearest_scope_outward[where b=0] nearest_scope_here example_heap_def)
  have y: "nearest_scope example_heap (Suc 0) [121] = None"
    by (simp add: nearest_scope_outward[where b=0] nearest_scope_none example_heap_def)
  have l: "lexeme (example_token IDENTIFIER w 1 1 :: rat option token) = w" for w
    by (simp add: example_token_def)
  show ?thesis
    using wf len
      assign_overwrites_nearest_binding
        [OF wf len, of "example_token IDENTIFIER [120] 1 1" "VNumber (Some 2)"]
      assign_overwrites_nearest_binding
        [OF wf len, of "example_token IDENTIFIER [121] 1 1" "VNumber (Some 2)"]
    by (simp add: x y l) (simp add: example_heap_def)
qed

section \<open>Scripts, from source text to output\<close>

lemmas parser_eval =
  parse_def parser_match_def parser_check_def parser_isAtEnd_def parser_peek_def
  parser_previous_def parser_advance_def parser_consume_def parse_returnStatement_def
  parse_expressionStatement_def parse_letDeclaration_def catch_synchronize_def thenParse_def

text \<open>Peeling a bound that is given as a sum, one call at a time.\<close>

lemma bound_peel: "n + numeral k = Suc (n + pred_numeral k)" "n + 1 = Suc n"
  by (simp_all add: numeral_eq_Suc)

text \<open>A return statement at top level: the word for return, a space, the word for true.\<close>

lemma scan_return_true:
  "scanTokens H (new_Lexer [0x8FD4, 0x56DE, 32, 0x771F]) =
     Inr [\<lparr>type = RETURN, lexeme = [0x8FD4, 0x56DE], literal = LNull, line = 1, column = 1\<rparr>,
          \<lparr>type = TRUE, lexeme = [0x771F], literal = LNull, line = 1, column = 4\<rparr>,
          \<lparr>type = EOF, lexeme = [], literal = LNull, line = 1, column = 5\<rparr>]"
  by (simp add: lexer_steps)

lemma parse_return_true:
  "parse [\<lparr>type = RETURN, lexeme = [0x8FD4, 0x56DE], literal = LNull, line = 1, column = 1\<rparr>,
          \<lparr>type = TRUE, lexeme = [0x771F], literal = LNull, line = 1, column = 4\<rparr>,
          \<lparr>type = EOF, lexeme = [], literal = LNull, line = 1, column = 5\<rparr>] (n + 60) =
   Some (Inr [Return \<lparr>type = RETURN, lexeme = [0x8FD4, 0x56DE], literal = LNull, line = 1,
                       column = 1\<rparr>
                (Some (Literal (LBool True)))])"
  by (simp add: bound_peel parser_eval)

text \<open>A call of \<open>null\<close>: the word for null and a pair of parentheses.\<close>

lemma scan_call_null:
  "scanTokens H (new_Lexer [0x7A7A, 40, 41]) =
     Inr [\<lparr>type = NULL, lexeme = [0x7A7A], literal = LNull, line = 1, column = 1\<rparr>,
          \<lparr>type = LEFT_PAREN, lexeme = [40], literal = LNull, line = 1, column = 2\<rparr>,
          \<lparr>type = RIGHT_PAREN, lexeme = [41], literal = LNull, line = 1, column = 3\<rparr>,
          \<lparr>type = EOF, lexeme = [], literal = LNull, line = 1, column = 4\<rparr>]"
  by (simp add: lexer_steps)

lemma parse_call_null:
  "parse [\<lparr>type = NULL, lexeme = [0x7A7A], literal = LNull, line = 1, column = 1\<rparr>,
          \<lparr>type = LEFT_PAREN, lexeme = [40], literal = LNull, line = 1, column = 2\<rparr>,
          \<lparr>type = RIGHT_PAREN, lexeme = [41], literal = LNull, line = 1, column = 3\<rparr>,
          \<lparr>type = EOF, lexeme = [], literal = LNull, line = 1, column = 4\<rparr>] (n + 60) =
   Some (Inr [Expression
                (Call (Literal LNull)
                   \<lparr>type = RIGHT_PAREN, lexeme = [41], literal = LNull, line = 1, column = 3\<rparr>
                   [])])"
  by (simp add: bound_peel parser_eval)

lemma run_return_true:
  "run H (n + 60) [0x8FD4, 0x56DE, 32, 0x771F] s = Some ([red msg_unknown_error], s)"
proof -
  have "interpret_statements H (n + 60)
          [Return \<lparr>type = RETURN, lexeme = [0x8FD4, 0x56DE], literal = LNull, line = 1,
                    column = 1\<rparr>
             (Some (Literal (LBool True)))] s
        = Some (Inl (ReturnValue (VBoolean True)), s)"
    by (simp add: bound_peel interpret_statements_def literal_value_def)
  then show ?thesis
    by (simp add: run_def scan_return_true parse_return_true report_def)
qed

lemma run_call_null:
  "run H (n + 60) [0x7A7A, 40, 41] s = Some ([red (engine_message H NullPropertyRead)], s)"
proof -
  have "interpret_statements H (n + 60)
          [Expression
             (Call (Literal LNull)
                \<lparr>type = RIGHT_PAREN, lexeme = [41], literal = LNull, line = 1, column = 3\<rparr>
                [])] s
        = Some (Inl (Error (engine_message H NullPropertyRead)), s)"
    by (simp add: bound_peel interpret_statements_def literal_value_def call_property_def)
  then show ?thesis
    by (simp add: run_def scan_call_null parse_call_null report_def)
qed

text \<open>The length of \<open>null\<close>: the name of the built-in for lengths, applied to the word
  for null.\<close>

lemma scan_length_null:
  "scanTokens H (new_Lexer [0x957F, 0x5EA6, 40, 0x7A7A, 41]) =
     Inr [\<lparr>type = IDENTIFIER, lexeme = [0x957F, 0x5EA6], literal = LNull, line = 1, column = 1\<rparr>,
          \<lparr>type = LEFT_PAREN, lexeme = [40], literal = LNull, line = 1, column = 3\<rparr>,
          \<lparr>type = NULL, lexeme = [0x7A7A], literal = LNull, line = 1, column = 4\<rparr>,
          \<lparr>type = RIGHT_PAREN, lexeme = [41], literal = LNull, line = 1, column = 5\<rparr>,
          \<lparr>type = EOF, lexeme = [], literal = LNull, line = 1, column = 6\<rparr>]"
  by (simp add: lexer_steps)

lemma parse_length_null:
  "parse [\<lparr>type = IDENTIFIER, lexeme = [0x957F, 0x5EA6], literal = LNull, line = 1, column = 1\<rparr>,
          \<lparr>type = LEFT_PAREN, lexeme = [40], literal = LNull, line = 1, column = 3\<rparr>,
          \<lparr>type = NULL, lexeme = [0x7A7A], literal = LNull, line = 1, column = 4\<rparr>,
          \<lparr>type = RIGHT_PAREN, lexeme = [41], literal = LNull, line = 1, column = 5\<rparr>,
          \<lparr>type = EOF, lexeme = [], literal = LNull, line = 1, column = 6\<rparr>] (n + 60) =
   Some (Inr [Expression
                (Call (Variable \<lparr>type = IDENTIFIER, lexeme = [0x957F, 0x5EA6], literal = LNull,
                                 line = 1, column = 1\<rparr>)
                   \<lparr>type = RIGHT_PAREN, lexeme = [41], literal = LNull, line = 1, column = 5\<rparr>
                   [Literal LNull])])"
  by (simp add: bound_peel parser_eval)

lemma run_length_null:
  "run H (n + 60) [0x957F, 0x5EA6, 40, 0x7A7A, 41] new_Interpreter =
     Some ([red msg_length_argument], new_Interpreter)"
proof -
  have "interpret_statements H (n + 60)
          [Expression
                (Call (Variable \<lparr>type = IDENTIFIER, lexeme = [0x957F, 0x5EA6], literal = LNull,
                                 line = 1, column = 1\<rparr>)
                   \<lparr>type = RIGHT_PAREN, lexeme = [41], literal = LNull, line = 1, column = 5\<rparr>
                   [Literal LNull])] new_Interpreter
        = Some (Inl (Error msg_length_argument), new_Interpreter)"
    by (simp add: bound_peel interpret_statements_def literal_value_def call_property_def arity_def
          callBuiltin_def get_global_builtin name_length_def)
  then show ?thesis
    by (simp add: run_def scan_length_null parse_length_null report_def)
qed

text \<open>The type of a built-in, printed: the built-in for output applied to the built-in
  for types applied to the built-in for output.\<close>

lemma scan_output_type_output:
  "scanTokens H (new_Lexer [0x8F93, 0x51FA, 40, 0x7C7B, 0x578B, 40, 0x8F93, 0x51FA, 41, 41]) =
     Inr [\<lparr>type = IDENTIFIER, lexeme = [0x8F93, 0x51FA], literal = LNull, line = 1, column = 1\<rparr>,
          \<lparr>type = LEFT_PAREN, lexeme = [40], literal = LNull, line = 1, column = 3\<rparr>,
          \<lparr>type = IDENTIFIER, lexeme = [0x7C7B, 0x578B], literal = LNull, line = 1, column = 4\<rparr>,
          \<lparr>type = LEFT_PAREN, lexeme = [40], literal = LNull, line = 1, column = 6\<rparr>,
          \<lparr>type = IDENTIFIER, lexeme = [0x8F93, 0x51FA], literal = LNull, line = 1, column = 7\<rparr>,
          \<lparr>type = RIGHT_PAREN, lexeme = [41], literal = LNull, line = 1, column = 9\<rparr>,
          \<lparr>type = RIGHT_PAREN, lexeme = [41], literal = LNull, line = 1, column = 10\<rparr>,
          \<lparr>type = EOF, lexeme = [], literal = LNull, line = 1, column = 11\<rparr>]"
  by (simp add: lexer_steps)

lemma parse_output_type_output:
  "parse [\<lparr>type = IDENTIFIER, lexeme = [0x8F93, 0x51FA], literal = LNull, line = 1, column = 1\<rparr>,
          \<lparr>type = LEFT_PAREN, lexeme = [40], literal = LNull, line = 1, column = 3\<rparr>,
          \<lparr>type = IDENTIFIER, lexeme = [0x7C7B, 0x578B], literal = LNull, line = 1, column = 4\<rparr>,
          \<lparr>type = LEFT_PAREN, lexeme = [40], literal = LNull, line = 1, column = 6\<rparr>,
          \<lparr>type = IDENTIFIER, lexeme = [0x8F93, 0x51FA], literal = LNull, line = 1, column = 7\<rparr>,
          \<lparr>type = RIGHT_PAREN, lexeme = [41], literal = LNull, line = 1, column = 9\<rparr>,
          \<lparr>type = RIGHT_PAREN, lexeme = [41], literal = LNull, line = 1, column = 10\<rparr>,
          \<lparr>type = EOF, lexeme = [], literal = LNull, line = 1, column = 11\<rparr>] (n + 60) =
   Some (Inr [Expression
     (Call (Variable \<lparr>type = IDENTIFIER, lexeme = [0x8F93, 0x51FA], literal = LNull, line = 1,
                      column = 1\<rparr>)
        \<lparr>type = RIGHT_PAREN, lexeme = [41], literal = LNull, line = 1, column = 10\<rparr>
        [Call (Variable \<lparr>type = IDENTIFIER, lexeme = [0x7C7B, 0x578B], literal = LNull, line = 1,
                         column = 4\<rparr>)
           \<lparr>type = RIGHT_PAREN, lexeme = [41], literal = LNull, line = 1, column = 9\<rparr>
           [Variable \<lparr>type = IDENTIFIER, lexeme = [0x8F93, 0x51FA], literal = LNull, line = 1,
                      column = 7\<rparr>]])])"
  by (simp add: bound_peel parser_eval)

lemma run_output_type_output:
  "run H (n + 60) [0x8F93, 0x51FA, 40, 0x7C7B, 0x578B, 40, 0x8F93, 0x51FA, 41, 41] new_Interpreter =
     Some ([], new_Interpreter\<lparr>stdout := [[VString tag_unknown]]\<rparr>)"
proof -
  have "interpret_statements H (n + 60)
     [Expression
     (Call (Variable \<lparr>type = IDENTIFIER, lexeme = [0x8F93, 0x51FA], literal = LNull, line = 1,
                      column = 1\<rparr>)
        \<lparr>type = RIGHT_PAREN, lexeme = [41], literal = LNull, line = 1, column = 10\<rparr>
        [Call (Variable \<lparr>type = IDENTIFIER, lexeme = [0x7C7B, 0x578B], literal = LNull, line = 1,
                         column = 4\<rparr>)
           \<lparr>type = RIGHT_PAREN, lexeme = [41], literal = LNull, line = 1, column = 9\<rparr>
           [Variable \<lparr>type = IDENTIFIER, lexeme = [0x8F93, 0x51FA], literal = LNull, line = 1,
                      column = 7\<rparr>]])] new_Interpreter
        = Some (Inr (), new_Interpreter\<lparr>stdout := [[VString tag_unknown]]\<rparr>)"
    by (simp add: bound_peel interpret_statements_def call_property_def arity_def
          callBuiltin_def get_global_builtin name_output_def name_type_def)
  then show ?thesis
    by (simp add: run_def scan_output_type_output parse_output_type_output)
qed

section \<open>Calls\<close>

lemma call_of_non_callable:
  assumes "evaluate H n callee_expr s = Some (Inr callee, s1)"
    and "evaluateAll H n arg_exprs s1 = Some (Inr args, s2)"
    and "callee \<noteq> VNull" and "arity callee = None"
  shows "evaluate H (Suc n) (Call callee_expr paren arg_exprs) s =
           Some (Inl (RuntimeError paren msg_only_functions), s2)"
  using assms by (cases callee) (auto simp: call_property_def arity_def split: builtin.splits)

lemma call_with_wrong_arity:
  assumes "evaluate H n callee_expr s = Some (Inr callee, s1)"
    and "evaluateAll H n arg_exprs s1 = Some (Inr args, s2)"
    and "arity callee = Some k" and "length args \<noteq> k"
  shows "evaluate H (Suc n) (Call callee_expr paren arg_exprs) s =
           Some (Inl (RuntimeError paren (msg_arity k (length args))), s2)"
  using assms by (cases callee) (auto simp: call_property_def arity_def split: builtin.splits)

lemma call_with_right_arity:
  assumes "evaluate H n callee_expr s = Some (Inr callee, s1)"
    and "evaluateAll H n arg_exprs s1 = Some (Inr args, s2)"
    and "arity callee = Some (length args)"
  shows "evaluate H (Suc n) (Call callee_expr paren arg_exprs) s = call H n callee args s2"
  using assms by (cases callee) (auto simp: call_property_def arity_def split: builtin.splits)

text \<open>
  C4. As stated, a call throws the \<open>RuntimeError\<close> for a non-function for every callee
  that is not callable, \<open>null\<close> included. The test reads the property \<open>call\<close> of the
  callee, and reading a property of \<open>null\<close> makes the engine throw a \<open>TypeError\<close>. The
  script that is the word for null followed by a pair of parentheses ends with that
  error: \<open>run\<close> prints the message of the engine, without the text for a call of a
  non-function and without a line and column.
\<close>

theorem call_of_null_throws_engine_error:
  "run H (n + 60) [0x7A7A, 40, 41] s = Some ([red (engine_message H NullPropertyRead)], s)
   \<and> evaluate H (Suc (Suc n)) (Call (Literal LNull) paren []) s =
       Some (Inl (Error (engine_message H NullPropertyRead)), s)"
  by (simp add: run_call_null literal_value_def call_property_def)

section \<open>The built-in functions\<close>

lemma type_tags:
  "callBuiltin H BuiltinType (VArray i xs # rest) s = (Inr (VString tag_array), s)"
  "callBuiltin H BuiltinType (VNumber x # rest) s = (Inr (VString tag_number), s)"
  "callBuiltin H BuiltinType (VString y # rest) s = (Inr (VString tag_string), s)"
  "callBuiltin H BuiltinType (VBoolean b # rest) s = (Inr (VString tag_boolean), s)"
  "callBuiltin H BuiltinType (VNull # rest) s = (Inr (VString tag_null), s)"
  "callBuiltin H BuiltinType (VSFunction j nm ps body c # rest) s = (Inr (VString tag_function), s)"
  "callBuiltin H BuiltinType (VBuiltin f # rest) s = (Inr (VString tag_unknown), s)"
  by (simp_all add: callBuiltin_def)

lemma type_never_fails: "\<exists>t. callBuiltin H BuiltinType args s = (Inr (VString t), s)"
  by (auto simp: callBuiltin_def split: list.splits val.splits)

text \<open>
  C5. As stated, every callable value has the tag of functions. The built-in tests
  \<open>arg instanceof VSFunction\<close>, and the four built-in objects are not instances of
  that class: for each of them the tag is the last one, unknown (U+672A U+77E5), not
  the tag of functions (U+51FD U+6570). The script that prints the type of the built-in
  for output prints the tag for unknown.
\<close>

theorem type_of_builtin_is_unknown:
  "callBuiltin H BuiltinType [VBuiltin f] s = (Inr (VString tag_unknown), s)
   \<and> tag_unknown \<noteq> tag_function
   \<and> run H (n + 60) [0x8F93, 0x51FA, 40, 0x7C7B, 0x578B, 40, 0x8F93, 0x51FA, 41, 41]
         new_Interpreter
       = Some ([], new_Interpreter\<lparr>stdout := [[VString tag_unknown]]\<rparr>)"
  by (simp add: type_tags tag_unknown_def tag_function_def run_output_type_output)

section \<open>The current environment\<close>

lemma callBuiltin_environment:
  "callBuiltin H b args s = (r, s') \<Longrightarrow> environment s' = environment s"
  by (cases b) (auto simp: callBuiltin_def Let_def split: list.splits val.splits if_splits)

lemma executeBlock_environment:
  "executeBlock H n statements a s = Some (r, s') \<Longrightarrow> environment s' = environment s"
  by (cases n) (auto split: option.splits)

lemma assign_outcome:
  "(case m of None \<Rightarrow> None | Some (Inl err) \<Rightarrow> Some (Inl err, s1)
    | Some (Inr h) \<Rightarrow> Some (Inr v, s1\<lparr>heap := h\<rparr>)) = Some (r, s') \<longleftrightarrow>
   (\<exists>err. m = Some (Inl err) \<and> r = Inl err \<and> s' = s1)
   \<or> (\<exists>h. m = Some (Inr h) \<and> r = Inr v \<and> s' = s1\<lparr>heap := h\<rparr>)"
  by (cases m) (auto split: sum.splits)

lemma call_outcome:
  "(case call_property H callee of
      Inl err \<Rightarrow> Some (Inl err, s2)
    | Inr False \<Rightarrow> Some (Inl (RuntimeError paren msg_only_functions), s2)
    | Inr True \<Rightarrow>
        (case arity callee of
           None \<Rightarrow> Some (Inl (Error (engine_message H NotAFunction)), s2)
         | Some k \<Rightarrow>
             if length args \<noteq> k
             then Some (Inl (RuntimeError paren (msg_arity k (length args))), s2)
             else body)) = Some (r, s') \<longleftrightarrow>
   (\<exists>err. call_property H callee = Inl err \<and> r = Inl err \<and> s' = s2)
   \<or> (call_property H callee = Inr False
       \<and> r = Inl (RuntimeError paren msg_only_functions) \<and> s' = s2)
   \<or> (call_property H callee = Inr True \<and> arity callee = None
       \<and> r = Inl (Error (engine_message H NotAFunction)) \<and> s' = s2)
   \<or> (\<exists>k. call_property H callee = Inr True \<and> arity callee = Some k \<and> length args \<noteq> k
       \<and> r = Inl (RuntimeError paren (msg_arity k (length args))) \<and> s' = s2)
   \<or> (call_property H callee = Inr True \<and> arity callee = Some (length args)
       \<and> body = Some (r, s'))"
  by (cases "call_property H callee"; cases "arity callee")
     (auto split: bool.splits)

lemma for_outcome:
  "(case it of VArray i xs \<Rightarrow> loop xs | _ \<Rightarrow> other) = Some (r, s') \<longleftrightarrow>
   (\<exists>i xs. it = VArray i xs \<and> loop xs = Some (r, s'))
   \<or> ((\<forall>i xs. it \<noteq> VArray i xs) \<and> other = Some (r, s'))"
  by (cases it) auto

text \<open>No expression and no statement changes the field \<open>environment\<close>, however it
  ends: by induction on the bound of the tree walk, for its eight functions together.\<close>

lemma environment_preserved:
  "(\<forall>e s r s'. evaluate H n e s = Some (r, s') \<longrightarrow> environment s' = environment s)
   \<and> (\<forall>es s r s'. evaluateAll H n es s = Some (r, s') \<longrightarrow> environment s' = environment s)
   \<and> (\<forall>f args s r s'. call H n f args s = Some (r, s') \<longrightarrow> environment s' = environment s)
   \<and> (\<forall>st s r s'. execute H n st s = Some (r, s') \<longrightarrow> environment s' = environment s)
   \<and> (\<forall>sts s r s'. executeAll H n sts s = Some (r, s') \<longrightarrow> environment s' = environment s)
   \<and> (\<forall>x b a xs s r s'. forEach H n x b a xs s = Some (r, s') \<longrightarrow> environment s' = environment s)
   \<and> (\<forall>c b s r s'. whileLoop H n c b s = Some (r, s') \<longrightarrow> environment s' = environment s)"
proof (induction n)
  case 0
  show ?case by simp
next
  case (Suc n)
  have ev: "\<And>e s r s'. evaluate H n e s = Some (r, s') \<Longrightarrow> environment s' = environment s"
    using Suc by simp
  have evs: "\<And>es s r s'. evaluateAll H n es s = Some (r, s') \<Longrightarrow> environment s' = environment s"
    using Suc by simp
  have cl: "\<And>f args s r s'. call H n f args s = Some (r, s') \<Longrightarrow> environment s' = environment s"
    using Suc by simp
  have ex: "\<And>st s r s'. execute H n st s = Some (r, s') \<Longrightarrow> environment s' = environment s"
    using Suc by simp
  have exs: "\<And>sts s r s'. executeAll H n sts s = Some (r, s') \<Longrightarrow> environment s' = environment s"
    using Suc by simp
  have fe: "\<And>x b a xs s r s'. forEach H n x b a xs s = Some (r, s') \<Longrightarrow> environment s' = environment s"
    using Suc by simp
  have wl: "\<And>c b s r s'. whileLoop H n c b s = Some (r, s') \<Longrightarrow> environment s' = environment s"
    using Suc by simp
  have 1: "environment s' = environment s" if "evaluate H (Suc n) e s = Some (r, s')" for e s r s'
  proof (cases e)
    case (Binary l operator r)
    with that show ?thesis by (auto simp: andThen_eq_Some dest!: ev)
  next
    case (Grouping e1)
    with that show ?thesis by (auto dest!: ev)
  next
    case (Literal v)
    with that show ?thesis by auto
  next
    case (Unary operator r)
    with that show ?thesis by (auto simp: andThen_eq_Some dest!: ev)
  next
    case (Variable name)
    with that show ?thesis by (auto split: option.splits)
  next
    case (Assign name e1)
    with that show ?thesis
      by (auto simp: andThen_eq_Some assign_outcome dest!: ev)
  next
    case (Call callee_expr paren arg_exprs)
    with that show ?thesis
      by (auto simp: andThen_eq_Some call_outcome dest!: ev evs cl)
  next
    case (Array elements)
    with that show ?thesis by (auto simp: andThen_eq_Some dest!: evs)
  qed
  have 2: "environment s' = environment s" if "evaluateAll H (Suc n) es s = Some (r, s')" for es s r s'
    using that by (cases es) (auto simp: andThen_eq_Some dest!: ev evs)
  have 3: "environment s' = environment s" if "call H (Suc n) f args s = Some (r, s')" for f args s r s'
  proof (cases f)
    case (VSFunction i nm params body closure)
    with that show ?thesis
      by (auto simp: Let_def split: option.splits sum.splits prod.splits thrown.splits
               dest!: executeBlock_environment)
  next
    case (VBuiltin b)
    with that show ?thesis by (auto dest!: callBuiltin_environment)
  qed (use that in auto)
  have 4: "environment s' = environment s" if "execute H (Suc n) st s = Some (r, s')" for st s r s'
  proof (cases st)
    case (Expression e)
    with that show ?thesis by (auto simp: andThen_eq_Some dest!: ev)
  next
    case (Function name params body)
    with that show ?thesis by (auto simp: Let_def)
  next
    case (If_stmt condition thenBranch elseBranch)
    with that show ?thesis
      by (auto simp: andThen_eq_Some split: if_splits option.splits dest!: ev ex)
  next
    case (Let_stmt name initializer)
    with that show ?thesis
      by (auto simp: andThen_eq_Some split: option.splits dest!: ev)
  next
    case (Return keyword val_expr)
    with that show ?thesis
      by (auto simp: andThen_eq_Some split: option.splits dest!: ev)
  next
    case (While condition body)
    with that show ?thesis by (auto dest!: wl)
  next
    case (Block statements)
    with that show ?thesis by (auto dest!: executeBlock_environment)
  next
    case (For variable iterable body)
    with that show ?thesis
      by (auto simp: andThen_eq_Some for_outcome dest!: ev fe)
  qed
  have 5: "environment s' = environment s" if "executeAll H (Suc n) sts s = Some (r, s')" for sts s r s'
    using that by (cases sts) (auto simp: andThen_eq_Some dest!: ex exs)
  have 6: "environment s' = environment s" if "forEach H (Suc n) x b a xs s = Some (r, s')"
    for x b a xs s r s'
    using that by (cases xs) (auto simp: andThen_eq_Some dest!: executeBlock_environment fe)
  have 7: "environment s' = environment s" if "whileLoop H (Suc n) c b s = Some (r, s')" for c b s r s'
    using that by (auto simp: andThen_eq_Some split: if_splits dest!: ev ex wl)
  from 1 2 3 4 5 6 7 show ?case by blast
qed

text \<open>
  C9. \<open>executeBlock\<close> makes the environment it is given the current one, runs the
  statements, and puts the previous environment back whatever the statements did: when
  it returns, normally or with anything thrown (a \<open>RuntimeError\<close>, a \<open>ReturnValue\<close>, an
  \<open>Error\<close>), the field \<open>environment\<close> is what it was before, and the same holds for
  every statement and every call. The environment that is made current is a fresh child
  in each of the three places that run a block. A block statement runs its statements
  with a new environment current, whose enclosing environment is the one that was
  current. A for loop makes one new child of the current environment when the iterable
  is an array, and every iteration defines the loop variable there and runs the body with
  that child current. A function call runs the body with a new child of the closure
  current, the parameters bound in it. The new environment is at the first unused address
  of the store, it is empty, and the environments that were in the store are untouched.
  In every case the previous environment is put back before the next iteration or the
  return.
\<close>

theorem blocks_push_and_restore_environment:
  "executeBlock H (Suc n) statements a s =
     (case executeAll H n statements (s\<lparr>environment := a\<rparr>) of
        None \<Rightarrow> None
      | Some (r, s1) \<Rightarrow> Some (r, s1\<lparr>environment := environment s\<rparr>))
   \<and> (executeBlock H m statements a s = Some (r, s') \<longrightarrow> environment s' = environment s)
   \<and> (execute H m st s = Some (r, s') \<longrightarrow> environment s' = environment s)
   \<and> (call H m f args s = Some (r', s') \<longrightarrow> environment s' = environment s)
   \<and> execute H (Suc (Suc n)) (Block statements) s =
     (case executeAll H n statements
             (s\<lparr>heap := heap s @ [new_Environment (Some (environment s))],
                environment := length (heap s)\<rparr>) of
        None \<Rightarrow> None
      | Some (r, s1) \<Rightarrow> Some (r, s1\<lparr>environment := environment s\<rparr>))
   \<and> (evaluate H k iterable s = Some (Inr (VArray i ys), s2) \<longrightarrow>
        execute H (Suc k) (For variable iterable body) s =
          forEach H k variable body (length (heap s2)) ys
            (s2\<lparr>heap := heap s2 @ [new_Environment (Some (environment s2))]\<rparr>))
   \<and> forEach H (Suc (Suc n)) variable body a (x # xs) s =
     (case executeAll H n [body]
             (s\<lparr>heap := env_define a (lexeme variable) x (heap s), environment := a\<rparr>) of
        None \<Rightarrow> None
      | Some (Inl err, s1) \<Rightarrow> Some (Inl err, s1\<lparr>environment := environment s\<rparr>)
      | Some (Inr u, s1) \<Rightarrow>
          forEach H (Suc n) variable body a xs (s1\<lparr>environment := environment s\<rparr>))
   \<and> call H (Suc (Suc n)) (VSFunction j nm params fbody closure) args s =
     (case executeAll H n fbody
             (s\<lparr>heap := bind_params (length (heap s)) params args
                             (heap s @ [new_Environment (Some closure)]),
                environment := length (heap s)\<rparr>) of
        None \<Rightarrow> None
      | Some (Inl (ReturnValue v), s1) \<Rightarrow> Some (Inr v, s1\<lparr>environment := environment s\<rparr>)
      | Some (Inl err, s1) \<Rightarrow> Some (Inl err, s1\<lparr>environment := environment s\<rparr>)
      | Some (Inr u, s1) \<Rightarrow> Some (Inr VNull, s1\<lparr>environment := environment s\<rparr>))
   \<and> (heap s @ [new_Environment (Some c)]) ! length (heap s) =
       \<lparr>vals = Map.empty, enclosing = Some c\<rparr>
   \<and> take (length (heap s)) (heap s @ [new_Environment (Some c)]) = heap s"
proof -
  have frame: "(executeBlock H m statements a s = Some (r, s') \<longrightarrow> environment s' = environment s)
   \<and> (execute H m st s = Some (r, s') \<longrightarrow> environment s' = environment s)
   \<and> (call H m f args s = Some (r', s') \<longrightarrow> environment s' = environment s)"
    using environment_preserved[of H m] executeBlock_environment[of H m statements a s r s']
    by auto
  have block: "execute H (Suc (Suc n)) (Block statements) s =
     (case executeAll H n statements
             (s\<lparr>heap := heap s @ [new_Environment (Some (environment s))],
                environment := length (heap s)\<rparr>) of
        None \<Rightarrow> None
      | Some (r, s1) \<Rightarrow> Some (r, s1\<lparr>environment := environment s\<rparr>))"
    by (simp split: option.splits)
  have loop: "evaluate H k iterable s = Some (Inr (VArray i ys), s2) \<longrightarrow>
        execute H (Suc k) (For variable iterable body) s =
          forEach H k variable body (length (heap s2)) ys
            (s2\<lparr>heap := heap s2 @ [new_Environment (Some (environment s2))]\<rparr>)"
    by (simp add: andThen_def)
  have iteration: "forEach H (Suc (Suc n)) variable body a (x # xs) s =
     (case executeAll H n [body]
             (s\<lparr>heap := env_define a (lexeme variable) x (heap s), environment := a\<rparr>) of
        None \<Rightarrow> None
      | Some (Inl err, s1) \<Rightarrow> Some (Inl err, s1\<lparr>environment := environment s\<rparr>)
      | Some (Inr u, s1) \<Rightarrow>
          forEach H (Suc n) variable body a xs (s1\<lparr>environment := environment s\<rparr>))"
    by (simp add: andThen_def split: option.splits sum.splits)
  have function_body: "call H (Suc (Suc n)) (VSFunction j nm params fbody closure) args s =
     (case executeAll H n fbody
             (s\<lparr>heap := bind_params (length (heap s)) params args
                             (heap s @ [new_Environment (Some closure)]),
                environment := length (heap s)\<rparr>) of
        None \<Rightarrow> None
      | Some (Inl (ReturnValue v), s1) \<Rightarrow> Some (Inr v, s1\<lparr>environment := environment s\<rparr>)
      | Some (Inl err, s1) \<Rightarrow> Some (Inl err, s1\<lparr>environment := environment s\<rparr>)
      | Some (Inr u, s1) \<Rightarrow> Some (Inr VNull, s1\<lparr>environment := environment s\<rparr>))"
    by (simp add: Let_def split: option.splits sum.splits thrown.splits)
  have fresh: "(heap s @ [new_Environment (Some c)]) ! length (heap s) =
       \<lparr>vals = Map.empty, enclosing = Some c\<rparr>
   \<and> take (length (heap s)) (heap s @ [new_Environment (Some c)]) = heap s"
    by (simp add: new_Environment_def)
  have unfold: "executeBlock H (Suc n) statements a s =
     (case executeAll H n statements (s\<lparr>environment := a\<rparr>) of
        None \<Rightarrow> None
      | Some (r, s1) \<Rightarrow> Some (r, s1\<lparr>environment := environment s\<rparr>))"
    by simp
  from unfold frame block loop iteration function_body fresh show ?thesis
    by (intro conjI) (erule conjE | assumption)+
qed

theorem blocks_push_and_restore_environment_witness:
  "executeBlock exact_host (Suc (Suc (Suc (Suc (Suc 0)))))
       [Let_stmt (example_token IDENTIFIER [121] 1 6)
          (Some (Variable (example_token IDENTIFIER [120] 1 10)))] 0 example_state
     = Some (Inr (),
             example_state\<lparr>heap := env_define 0 [121] (VNumber (Some 1)) (heap example_state)\<rparr>)
   \<and> environment (example_state\<lparr>heap := env_define 0 [121] (VNumber (Some 1))
                                              (heap example_state)\<rparr>)
     = environment example_state
   \<and> execute exact_host (Suc (Suc (Suc (Suc (Suc (Suc (Suc 0)))))))
       (Block [Let_stmt (example_token IDENTIFIER [120] 1 8) (Some (Literal (LNumber (Some 3)))),
               Return (example_token RETURN [0x8FD4, 0x56DE] 1 14)
                 (Some (Variable (example_token IDENTIFIER [120] 1 17)))]) example_state
     = Some (Inl (ReturnValue (VNumber (Some 3))),
             example_state\<lparr>heap := heap example_state
                @ [\<lparr>vals = [[120] \<mapsto> VNumber (Some 3)], enclosing = Some 1\<rparr>]\<rparr>)
   \<and> environment (example_state\<lparr>heap := heap example_state
                @ [\<lparr>vals = [[120] \<mapsto> VNumber (Some 3)], enclosing = Some 1\<rparr>]\<rparr>)
     = environment example_state
   \<and> call exact_host (Suc (Suc (Suc (Suc (Suc 0))))) example_function [] example_state
     = Some (Inr (VNumber (Some 1)),
             example_state\<lparr>heap := heap example_state @ [\<lparr>vals = Map.empty, enclosing = Some 0\<rparr>]\<rparr>)
   \<and> environment (example_state\<lparr>heap := heap example_state
                @ [\<lparr>vals = Map.empty, enclosing = Some 0\<rparr>]\<rparr>)
     = environment example_state
   \<and> execute exact_host (Suc (Suc (Suc (Suc (Suc (Suc 0))))))
       (For (example_token IDENTIFIER [118] 1 4) (Array [Literal (LNumber (Some 7))])
          (Return (example_token RETURN [0x8FD4, 0x56DE] 1 14)
             (Some (Variable (example_token IDENTIFIER [118] 1 17))))) example_state
     = Some (Inl (ReturnValue (VNumber (Some 7))),
             example_state\<lparr>allocated := 2, heap := heap example_state
                @ [\<lparr>vals = [[118] \<mapsto> VNumber (Some 7)], enclosing = Some 1\<rparr>]\<rparr>)
   \<and> environment (example_state\<lparr>allocated := 2, heap := heap example_state
                @ [\<lparr>vals = [[118] \<mapsto> VNumber (Some 7)], enclosing = Some 1\<rparr>]\<rparr>)
     = environment example_state"
proof -
  let ?let = "Let_stmt (example_token IDENTIFIER [121] 1 6)
                (Some (Variable (example_token IDENTIFIER [120] 1 10))) :: rat option stmt"
  let ?s1 = "example_state\<lparr>heap := env_define 0 [121] (VNumber (Some 1)) (heap example_state)\<rparr>"
  let ?block = "Block [Let_stmt (example_token IDENTIFIER [120] 1 8)
                         (Some (Literal (LNumber (Some 3)))),
                       Return (example_token RETURN [0x8FD4, 0x56DE] 1 14)
                         (Some (Variable (example_token IDENTIFIER [120] 1 17)))]
                :: rat option stmt"
  let ?v = "example_token IDENTIFIER [118] 1 4 :: rat option token"
  let ?array = "Array [Literal (LNumber (Some 7))] :: rat option expr"
  let ?body = "Return (example_token RETURN [0x8FD4, 0x56DE] 1 14)
                 (Some (Variable (example_token IDENTIFIER [118] 1 17))) :: rat option stmt"
  let ?s2 = "example_state\<lparr>heap := heap example_state
                @ [\<lparr>vals = [[120] \<mapsto> VNumber (Some 3)], enclosing = Some 1\<rparr>]\<rparr>"
  let ?s3 = "example_state\<lparr>heap := heap example_state
                @ [\<lparr>vals = Map.empty, enclosing = Some 0\<rparr>]\<rparr>"
  let ?s4 = "example_state\<lparr>allocated := 2, heap := heap example_state
                @ [\<lparr>vals = [[118] \<mapsto> VNumber (Some 7)], enclosing = Some 1\<rparr>]\<rparr>"
  have designated: "executeBlock exact_host (Suc (Suc (Suc (Suc (Suc 0))))) [?let] 0 example_state
     = Some (Inr (), ?s1)"
    by (simp add: example_state_def example_token_def get_here andThen_def)
  have block: "execute exact_host (Suc (Suc (Suc (Suc (Suc (Suc (Suc 0))))))) ?block example_state
     = Some (Inl (ReturnValue (VNumber (Some 3))), ?s2)"
    by (simp add: example_state_def example_token_def get_here literal_value_def env_define_def
          new_Environment_def andThen_def)
  have function_call: "call exact_host (Suc (Suc (Suc (Suc (Suc 0))))) example_function []
       example_state = Some (Inr (VNumber (Some 1)), ?s3)"
    by (simp add: example_function_def example_state_def example_token_def
          get_outward[where b = 0] get_here new_Environment_def Let_def)
  have iterable: "evaluate exact_host (Suc (Suc (Suc (Suc (Suc 0))))) ?array example_state
     = Some (Inr (VArray 1 [VNumber (Some 7)]), example_state\<lparr>allocated := 2\<rparr>)"
    by (simp add: example_state_def literal_value_def andThen_def)
  have iterations: "forEach exact_host (Suc (Suc (Suc (Suc (Suc 0))))) ?v ?body
       (length (heap (example_state\<lparr>allocated := 2\<rparr>))) [VNumber (Some 7)]
       (example_state\<lparr>allocated := 2,
          heap := heap (example_state\<lparr>allocated := 2\<rparr>)
                  @ [new_Environment (Some (environment (example_state\<lparr>allocated := 2\<rparr>)))]\<rparr>)
     = Some (Inl (ReturnValue (VNumber (Some 7))), ?s4)"
    by (simp add: example_state_def example_token_def get_here env_define_def
          new_Environment_def andThen_def)
  note at_example =
    blocks_push_and_restore_environment[where H = exact_host and s = example_state]
  from at_example[where k = "Suc (Suc (Suc (Suc (Suc 0))))" and iterable = ?array and i = 1
         and ys = "[VNumber (Some 7)]" and ?s2.0 = "example_state\<lparr>allocated := 2\<rparr>"
         and variable = ?v and body = ?body,
         THEN conjunct2, THEN conjunct2, THEN conjunct2, THEN conjunct2, THEN conjunct2,
         THEN conjunct1, THEN mp, OF iterable] iterations
  have loop: "execute exact_host (Suc (Suc (Suc (Suc (Suc (Suc 0)))))) (For ?v ?array ?body)
       example_state = Some (Inl (ReturnValue (VNumber (Some 7))), ?s4)"
    by (rule trans)
  have restored_designated: "environment ?s1 = environment example_state"
    by (rule at_example[where m = "Suc (Suc (Suc (Suc (Suc 0))))" and statements = "[?let]"
          and a = 0 and r = "Inr ()" and s' = ?s1,
          THEN conjunct2, THEN conjunct1, THEN mp, OF designated])
  have restored_block: "environment ?s2 = environment example_state"
    by (rule at_example[where m = "Suc (Suc (Suc (Suc (Suc (Suc (Suc 0))))))" and st = ?block
          and r = "Inl (ReturnValue (VNumber (Some 3)))" and s' = ?s2,
          THEN conjunct2, THEN conjunct2, THEN conjunct1, THEN mp, OF block])
  have restored_call: "environment ?s3 = environment example_state"
    by (rule at_example[where m = "Suc (Suc (Suc (Suc (Suc 0))))" and f = example_function
          and args = "[]" and r' = "Inr (VNumber (Some 1))" and s' = ?s3,
          THEN conjunct2, THEN conjunct2, THEN conjunct2, THEN conjunct1, THEN mp,
          OF function_call])
  have restored_loop: "environment ?s4 = environment example_state"
    by (rule at_example[where m = "Suc (Suc (Suc (Suc (Suc (Suc 0)))))"
          and st = "For ?v ?array ?body"
          and r = "Inl (ReturnValue (VNumber (Some 7)))" and s' = ?s4,
          THEN conjunct2, THEN conjunct2, THEN conjunct1, THEN mp, OF loop])
  from designated restored_designated block restored_block function_call restored_call loop
    restored_loop
  show ?thesis
    by (intro conjI)
qed

section \<open>Function calls\<close>

lemma env_define_length [simp]: "length (env_define a x v h) = length h"
  by (simp add: env_define_def)

lemma env_define_other: "b \<noteq> a \<Longrightarrow> env_define a x v h ! b = h ! b"
  by (simp add: env_define_def)

lemma env_define_at:
  "a < length h \<Longrightarrow> env_define a x v h ! a = (h ! a)\<lparr>vals := (vals (h ! a))(x \<mapsto> v)\<rparr>"
  by (simp add: env_define_def)

lemma bind_params_length [simp]: "length (bind_params a ps vs h) = length h"
  by (induction a ps vs h rule: bind_params.induct) simp_all

lemma bind_params_other: "b \<noteq> a \<Longrightarrow> bind_params a ps vs h ! b = h ! b"
  by (induction a ps vs h rule: bind_params.induct) (simp_all add: env_define_other)

text \<open>The parameters are bound in order, so that of two parameters with one name the
  later one is seen.\<close>

lemma bind_params_at:
  "a < length h \<Longrightarrow> length vs = length ps \<Longrightarrow>
   bind_params a ps vs h ! a =
     (h ! a)\<lparr>vals := vals (h ! a) ++ map_of (rev (zip (map lexeme ps) vs))\<rparr>"
proof (induction a ps vs h rule: bind_params.induct)
  case (1 a p ps v vs h)
  then show ?case
    by (auto simp: env_define_at map_add_def fun_eq_iff split: option.splits)
qed simp_all

lemma bind_params_new_environment:
  assumes "length vs = length ps"
  shows "bind_params (length h) ps vs (h @ [new_Environment (Some c)]) =
           h @ [\<lparr>vals = map_of (rev (zip (map lexeme ps) vs)), enclosing = Some c\<rparr>]"
proof (rule nth_equalityI)
  show "length (bind_params (length h) ps vs (h @ [new_Environment (Some c)])) =
        length (h @ [\<lparr>vals = map_of (rev (zip (map lexeme ps) vs)), enclosing = Some c\<rparr>])"
    by simp
next
  fix i assume "i < length (bind_params (length h) ps vs (h @ [new_Environment (Some c)]))"
  then have i: "i < Suc (length h)" by simp
  show "bind_params (length h) ps vs (h @ [new_Environment (Some c)]) ! i =
        (h @ [\<lparr>vals = map_of (rev (zip (map lexeme ps) vs)), enclosing = Some c\<rparr>]) ! i"
  proof (cases "i = length h")
    case True
    with assms show ?thesis
      by (simp add: bind_params_at new_Environment_def)
  next
    case False
    with i show ?thesis by (simp add: bind_params_other nth_append)
  qed
qed

text \<open>
  C7. A function statement makes a function value whose closure is the environment that
  is current at the declaration. A call of such a value with as many arguments as
  parameters adds one new environment to the store, whose enclosing environment is the
  closure (whatever the current environment of the caller is) and which binds the
  parameters to the arguments by position; the body runs with the new environment as the
  current one; the call returns the value of the \<open>ReturnValue\<close> that the body throws,
  \<open>null\<close> when the body ends without one, and throws what else the body throws.
\<close>

theorem call_runs_body_in_child_of_closure:
  assumes "length args = length params"
  shows "execute H (Suc k) (Function nm params body) s =
           Some (Inr (),
                 s\<lparr>allocated := allocated s + 1,
                    heap := env_define (environment s) (lexeme nm)
                              (VSFunction (allocated s) nm params body (environment s)) (heap s)\<rparr>)
       \<and> call H (Suc (Suc n)) (VSFunction i nm params body closure) args s =
           (case executeAll H n body
                   (s\<lparr>heap := heap s @ [\<lparr>vals = map_of (rev (zip (map lexeme params) args)),
                                          enclosing = Some closure\<rparr>],
                      environment := length (heap s)\<rparr>) of
              None \<Rightarrow> None
            | Some (Inl (ReturnValue v), s2) \<Rightarrow> Some (Inr v, s2\<lparr>environment := environment s\<rparr>)
            | Some (Inl err, s2) \<Rightarrow> Some (Inl err, s2\<lparr>environment := environment s\<rparr>)
            | Some (Inr u, s2) \<Rightarrow> Some (Inr VNull, s2\<lparr>environment := environment s\<rparr>))"
  using assms
  by (auto simp: Let_def bind_params_new_environment
           split: option.splits sum.splits thrown.splits)

theorem call_runs_body_in_child_of_closure_witness:
  "call exact_host (Suc (Suc (Suc (Suc (Suc 0))))) example_function [] example_state =
     Some (Inr (VNumber (Some 1)),
           example_state\<lparr>heap := heap example_state @ [\<lparr>vals = Map.empty, enclosing = Some 0\<rparr>]\<rparr>)"
  using call_runs_body_in_child_of_closure
          [where H = exact_host and params = "[]" and args = "[]" and s = example_state
             and n = "Suc (Suc (Suc 0))" and i = 0 and closure = 0
             and nm = "example_token IDENTIFIER [102] 1 1"
             and body = "[Return (example_token RETURN [0x8FD4, 0x56DE] 1 7)
                           (Some (Variable (example_token IDENTIFIER [120] 1 10)))]"]
  by (simp add: example_function_def example_state_def example_token_def
        get_outward[where b = 0] get_here)

section \<open>What is thrown, and how it surfaces\<close>

lemma checkNumberOperand_error:
  "checkNumberOperand operator v = Inl e \<Longrightarrow> e = RuntimeError operator msg_operand_number"
  by (auto simp: checkNumberOperand_def split: val.splits)

lemma binaryOp_error:
  "binaryOp H operator l r = Inl e \<Longrightarrow>
   e = RuntimeError operator msg_operand_number
   \<or> e = RuntimeError operator msg_operands_number_or_string
   \<or> e = RuntimeError operator msg_division_by_zero"
  by (cases "type operator")
     (auto simp: binaryOp_def split: sum.splits val.splits if_splits prod.splits
           dest!: checkNumberOperands_error)

lemma unaryOp_error:
  "unaryOp H operator r = Inl e \<Longrightarrow> e = RuntimeError operator msg_operand_number"
  by (cases "type operator")
     (auto simp: unaryOp_def split: sum.splits dest!: checkNumberOperand_error)

text \<open>The errors of \<open>get\<close> and \<open>assign\<close>: whenever they return an error, it is the
  \<open>RuntimeError\<close> for an undefined variable with the name token.\<close>

lemma get_result:
  assumes "get h a name = Some r"
  shows "\<forall>e. r = Inl e \<longrightarrow> e = RuntimeError name (msg_undefined_variable (lexeme name))"
  by (rule get.raw_induct[OF _ assms]) (auto split: if_splits)

lemma get_error:
  "get h a name = Some (Inl e) \<Longrightarrow>
   e = RuntimeError name (msg_undefined_variable (lexeme name))"
  using get_result by blast

lemma assign_result:
  assumes "assign h a name v = Some r"
  shows "\<forall>e. r = Inl e \<longrightarrow> e = RuntimeError name (msg_undefined_variable (lexeme name))"
  by (rule assign.raw_induct[OF _ assms]) (auto split: if_splits)

lemma assign_error:
  "assign h a name v = Some (Inl e) \<Longrightarrow>
   e = RuntimeError name (msg_undefined_variable (lexeme name))"
  using assign_result by blast

lemma callBuiltin_error:
  "callBuiltin H b args s = (Inl e, s') \<Longrightarrow>
   s' = s \<and> (b = BuiltinRange \<and> (e = Error msg_range_arguments
                                  \<or> e = Error (engine_message H InvalidArrayLength))
            \<or> b = BuiltinLength \<and> e = Error msg_length_argument)"
  by (cases b) (auto simp: callBuiltin_def Let_def split: list.splits val.splits if_splits)

lemma call_property_error:
  "call_property H callee = Inl e \<Longrightarrow> callee = VNull \<and> e = Error (engine_message H NullPropertyRead)"
  by (cases callee) (auto simp: call_property_def)

lemma catch_return_outcome:
  "(case m of None \<Rightarrow> None
    | Some (Inl (ReturnValue v), s2) \<Rightarrow> Some (Inr v, s2)
    | Some (Inl err, s2) \<Rightarrow> Some (Inl err, s2)
    | Some (Inr u, s2) \<Rightarrow> Some (Inr VNull, s2)) = Some (r, s') \<longleftrightarrow>
   (\<exists>v. m = Some (Inl (ReturnValue v), s') \<and> r = Inr v)
   \<or> (\<exists>err. m = Some (Inl err, s') \<and> (\<forall>v. err \<noteq> ReturnValue v) \<and> r = Inl err)
   \<or> (\<exists>u. m = Some (Inr u, s') \<and> r = Inr VNull)"
  by (auto split: option.splits sum.splits thrown.splits)

lemma executeBlock_outcome:
  "executeBlock H (Suc n) statements a s = Some (r, s') \<longleftrightarrow>
   (\<exists>s1. executeAll H n statements (s\<lparr>environment := a\<rparr>) = Some (r, s1)
         \<and> s' = s1\<lparr>environment := environment s\<rparr>)"
  by (auto split: option.splits)

lemma plain_errors:
  "(\<forall>e s m s'. evaluate H n e s = Some (Inl (Error m), s') \<longrightarrow> plain_error_message H m)
   \<and> (\<forall>es s m s'. evaluateAll H n es s = Some (Inl (Error m), s') \<longrightarrow> plain_error_message H m)
   \<and> (\<forall>f args s m s'. call H n f args s = Some (Inl (Error m), s') \<longrightarrow> plain_error_message H m)
   \<and> (\<forall>st s m s'. execute H n st s = Some (Inl (Error m), s') \<longrightarrow> plain_error_message H m)
   \<and> (\<forall>sts s m s'. executeAll H n sts s = Some (Inl (Error m), s') \<longrightarrow> plain_error_message H m)
   \<and> (\<forall>sts a s m s'. executeBlock H n sts a s = Some (Inl (Error m), s') \<longrightarrow> plain_error_message H m)
   \<and> (\<forall>x b a xs s m s'. forEach H n x b a xs s = Some (Inl (Error m), s') \<longrightarrow> plain_error_message H m)
   \<and> (\<forall>c b s m s'. whileLoop H n c b s = Some (Inl (Error m), s') \<longrightarrow> plain_error_message H m)"
proof (induction n)
  case 0
  show ?case by simp
next
  case (Suc n)
  note ev = Suc[THEN conjunct1, rule_format]
  note evs = Suc[THEN conjunct2, THEN conjunct1, rule_format]
  note cl = Suc[THEN conjunct2, THEN conjunct2, THEN conjunct1, rule_format]
  note ex = Suc[THEN conjunct2, THEN conjunct2, THEN conjunct2, THEN conjunct1, rule_format]
  note exs = Suc[THEN conjunct2, THEN conjunct2, THEN conjunct2, THEN conjunct2, THEN conjunct1, rule_format]
  note eb = Suc[THEN conjunct2, THEN conjunct2, THEN conjunct2, THEN conjunct2, THEN conjunct2, THEN conjunct1, rule_format]
  note fe = Suc[THEN conjunct2, THEN conjunct2, THEN conjunct2, THEN conjunct2, THEN conjunct2, THEN conjunct2, THEN conjunct1, rule_format]
  note wl = Suc[THEN conjunct2, THEN conjunct2, THEN conjunct2, THEN conjunct2, THEN conjunct2, THEN conjunct2, THEN conjunct2, rule_format]
  have 1: "plain_error_message H m" if "evaluate H (Suc n) e s = Some (Inl (Error m), s')" for e s m s'
  proof (cases e)
    case (Binary l operator r)
    with that show ?thesis
      by (auto simp: andThen_eq_Some dest: ev dest!: binaryOp_error)
  next
    case (Grouping e1)
    with that show ?thesis by (auto dest: ev)
  next
    case (Literal v)
    with that show ?thesis by auto
  next
    case (Unary operator r)
    with that show ?thesis by (auto simp: andThen_eq_Some dest: ev dest!: unaryOp_error)
  next
    case (Variable name)
    with that show ?thesis by (auto split: option.splits dest!: get_error)
  next
    case (Assign name e1)
    with that show ?thesis
      by (auto simp: andThen_eq_Some assign_outcome dest: ev dest!: assign_error)
  next
    case (Call callee_expr paren arg_exprs)
    with that show ?thesis
      by (auto simp: andThen_eq_Some call_outcome plain_error_message_def
               dest: ev evs cl dest!: call_property_error)
  next
    case (Array elements)
    with that show ?thesis by (auto simp: andThen_eq_Some dest: evs)
  qed
  have 2: "plain_error_message H m" if "evaluateAll H (Suc n) es s = Some (Inl (Error m), s')" for es s m s'
    using that by (cases es) (auto simp: andThen_eq_Some dest: ev evs)
  have 3: "plain_error_message H m" if "call H (Suc n) f args s = Some (Inl (Error m), s')" for f args s m s'
  proof (cases f)
    case (VSFunction i nm params body closure)
    with that show ?thesis
      by (auto simp: Let_def catch_return_outcome dest: eb)
  next
    case (VBuiltin b)
    with that show ?thesis
      by (auto simp: plain_error_message_def dest!: callBuiltin_error)
  qed (use that in \<open>auto simp: plain_error_message_def\<close>)
  have 4: "plain_error_message H m" if "execute H (Suc n) st s = Some (Inl (Error m), s')" for st s m s'
  proof (cases st)
    case (Expression e)
    with that show ?thesis by (auto simp: andThen_eq_Some dest: ev)
  next
    case (Function name params body)
    with that show ?thesis by (auto simp: Let_def)
  next
    case (If_stmt condition thenBranch elseBranch)
    with that show ?thesis
      by (auto simp: andThen_eq_Some split: if_splits option.splits dest: ev ex)
  next
    case (Let_stmt name initializer)
    with that show ?thesis
      by (auto simp: andThen_eq_Some split: option.splits dest: ev)
  next
    case (Return keyword val_expr)
    with that show ?thesis
      by (auto simp: andThen_eq_Some split: option.splits dest: ev)
  next
    case (While condition body)
    with that show ?thesis by (auto dest: wl)
  next
    case (Block statements)
    with that show ?thesis by (auto dest: eb)
  next
    case (For variable iterable body)
    with that show ?thesis
      by (auto simp: andThen_eq_Some for_outcome dest: ev fe)
  qed
  have 5: "plain_error_message H m" if "executeAll H (Suc n) sts s = Some (Inl (Error m), s')" for sts s m s'
    using that by (cases sts) (auto simp: andThen_eq_Some dest: ex exs)
  have 6: "plain_error_message H m" if "executeBlock H (Suc n) sts a s = Some (Inl (Error m), s')"
    for sts a s m s'
    using that by (auto simp: executeBlock_outcome simp del: executeBlock.simps dest: exs)
  have 7: "plain_error_message H m" if "forEach H (Suc n) x b a xs s = Some (Inl (Error m), s')"
    for x b a xs s m s'
    using that by (cases xs) (auto simp: andThen_eq_Some dest: eb fe)
  have 8: "plain_error_message H m" if "whileLoop H (Suc n) c b s = Some (Inl (Error m), s')" for c b s m s'
    using that by (auto simp: andThen_eq_Some split: if_splits dest: ev ex wl)
  from 1 2 3 4 5 6 7 8 show ?case by blast
qed

text \<open>
  C3. As stated, every failure of an evaluation, those of the built-ins for
  ranges and lengths included, carries a token and surfaces with the prefix for runtime
  errors and the line and column. The two built-ins throw a plain \<open>Error\<close>: \<open>call\<close>
  gets no token, and \<open>interpret\<close> only rewrites a \<open>RuntimeError\<close>. The script that asks
  for the length of \<open>null\<close> surfaces the bare message of the built-in, which does not
  begin with the prefix for runtime errors.
\<close>

theorem length_failure_surfaces_without_position:
  "run exact_host 60 [0x957F, 0x5EA6, 40, 0x7A7A, 41] new_Interpreter
   = Some ([red msg_length_argument], new_Interpreter)
   \<and> interpret_statements exact_host 60
       [Expression
          (Call (Variable (example_token IDENTIFIER name_length 1 1))
                (example_token RIGHT_PAREN (ascii '')'') 1 5)
                [Literal LNull])]
       new_Interpreter
     = Some (Inl (Error msg_length_argument), new_Interpreter)
   \<and> take 8 msg_length_argument \<noteq> [0x8FD0, 0x884C, 0x65F6, 0x9519, 0x8BEF, 0xFF08, 0x7B2C, 32]"
proof -
  have a: "run exact_host 60 [0x957F, 0x5EA6, 40, 0x7A7A, 41] new_Interpreter
             = Some ([red msg_length_argument], new_Interpreter)"
    using run_length_null[of exact_host 0] by simp
  have b: "interpret_statements exact_host (0 + 60)
       [Expression
          (Call (Variable (example_token IDENTIFIER name_length 1 1))
                (example_token RIGHT_PAREN (ascii '')'') 1 5)
                [Literal LNull])]
       new_Interpreter
     = Some (Inl (Error msg_length_argument), new_Interpreter)"
    by (simp add: bound_peel interpret_statements_def example_token_def get_global_builtin
          literal_value_def call_property_def arity_def callBuiltin_def)
  have c: "take 8 msg_length_argument \<noteq> [0x8FD0, 0x884C, 0x65F6, 0x9519, 0x8BEF, 0xFF08, 0x7B2C, 32]"
    by (simp add: msg_length_argument_def)
  from a b c show ?thesis by simp
qed

text \<open>
  C3, as amended. What the tree walk throws as a \<open>RuntimeError\<close> (a type mismatch, a
  division by zero, an undefined variable, a call of a value other than \<open>null\<close> that is
  not a function, an arity mismatch, a for loop over a value that is not an array)
  carries a token, and \<open>interpret\<close> surfaces it as an \<open>Error\<close> whose text is the prefix
  for runtime errors, the line and the column of that token, and the message. Every
  other \<open>Error\<close> that \<open>interpret\<close> surfaces has a bare message without a position: it
  is one of the two failures of the built-ins for ranges and lengths, which are thrown
  for every argument list that is not two numbers, or not an array or a string, or it is
  an error of the engine.
\<close>

theorem runtime_errors_surface_with_position:
  "(executeAll H n statements s = Some (Inl (RuntimeError tok msg), s') \<longrightarrow>
      interpret_statements H n statements s =
        Some (Inl (Error (runtime_error_text tok msg)), s'))
   \<and> (interpret_statements H n statements s = Some (Inl (Error m), s') \<longrightarrow>
        (\<exists>tok msg. executeAll H n statements s = Some (Inl (RuntimeError tok msg), s')
                    \<and> m = runtime_error_text tok msg)
        \<or> plain_error_message H m)
   \<and> ((\<forall>a b rest. args \<noteq> VNumber a # VNumber b # rest) \<longrightarrow>
        callBuiltin H BuiltinRange args s = (Inl (Error msg_range_arguments), s))
   \<and> ((\<forall>i xs x rest. args \<noteq> VArray i xs # rest \<and> args \<noteq> VString x # rest) \<longrightarrow>
        callBuiltin H BuiltinLength args s = (Inl (Error msg_length_argument), s))"
proof (intro conjI impI)
  assume "executeAll H n statements s = Some (Inl (RuntimeError tok msg), s')"
  then show "interpret_statements H n statements s =
               Some (Inl (Error (runtime_error_text tok msg)), s')"
    by (simp add: interpret_statements_def)
next
  assume a: "interpret_statements H n statements s = Some (Inl (Error m), s')"
  show "(\<exists>tok msg. executeAll H n statements s = Some (Inl (RuntimeError tok msg), s')
                    \<and> m = runtime_error_text tok msg)
        \<or> plain_error_message H m"
  proof (cases "executeAll H n statements s")
    case None
    with a show ?thesis by (simp add: interpret_statements_def)
  next
    case (Some p)
    obtain r s1 where p: "p = (r, s1)" by (cases p)
    show ?thesis
    proof (cases r)
      case (Inr u)
      with a Some p show ?thesis by (simp add: interpret_statements_def)
    next
      case (Inl e)
      show ?thesis
      proof (cases e)
        case (RuntimeError tok msg)
        with a Some p Inl show ?thesis by (simp add: interpret_statements_def)
      next
        case (ReturnValue v)
        with a Some p Inl show ?thesis by (simp add: interpret_statements_def)
      next
        case (Error m')
        with a Some p Inl have "executeAll H n statements s = Some (Inl (Error m), s')"
          by (simp add: interpret_statements_def)
        from plain_errors[of H n, THEN conjunct2, THEN conjunct2, THEN conjunct2,
                          THEN conjunct2, THEN conjunct1, rule_format, OF this]
        show ?thesis by simp
      qed
    qed
  qed
next
  assume "\<forall>a b rest. args \<noteq> VNumber a # VNumber b # rest"
  then show "callBuiltin H BuiltinRange args s = (Inl (Error msg_range_arguments), s)"
    by (auto simp: callBuiltin_def split: list.splits val.splits)
next
  assume "\<forall>i xs x rest. args \<noteq> VArray i xs # rest \<and> args \<noteq> VString x # rest"
  then show "callBuiltin H BuiltinLength args s = (Inl (Error msg_length_argument), s)"
    by (auto simp: callBuiltin_def split: list.splits val.splits)
qed

lemma showInt_1: "showInt 1 = [49]"
  by (simp add: showInt_def showNat.simps)

theorem runtime_errors_surface_with_position_witness:
  "interpret_statements exact_host (Suc (Suc (Suc (Suc 0))))
     [Expression (Unary (example_token MINUS (ascii ''-'') 1 1) (Literal (LBool True)))]
     new_Interpreter
   = Some (Inl (Error ([0x8FD0, 0x884C, 0x65F6, 0x9519, 0x8BEF, 0xFF08, 0x7B2C, 32, 49,
                        32, 0x884C, 0xFF0C, 0x7B2C, 32, 49, 32, 0x5217, 0xFF09, 0xFF1A,
                        0x64CD, 0x4F5C, 0x6570, 0x5FC5, 0x987B, 0x662F, 0x6570, 0x5B57])),
           new_Interpreter)
   \<and> callBuiltin exact_host BuiltinRange [VNull, VNumber (Some 1)] new_Interpreter
       = (Inl (Error msg_range_arguments), new_Interpreter)
   \<and> callBuiltin exact_host BuiltinLength [VNumber (Some 1)] new_Interpreter
       = (Inl (Error msg_length_argument), new_Interpreter)"
proof -
  have run: "executeAll exact_host (Suc (Suc (Suc (Suc 0))))
     [Expression (Unary (example_token MINUS (ascii ''-'') 1 1) (Literal (LBool True)))]
     new_Interpreter
   = Some (Inl (RuntimeError (example_token MINUS (ascii ''-'') 1 1) msg_operand_number),
           new_Interpreter)"
    by (simp add: unaryOp_def example_token_def checkNumberOperand_def literal_value_def)
  have shown: "runtime_error_text (example_token MINUS (ascii ''-'') 1 1 :: rat option token)
                msg_operand_number =
     [0x8FD0, 0x884C, 0x65F6, 0x9519, 0x8BEF, 0xFF08, 0x7B2C, 32, 49,
      32, 0x884C, 0xFF0C, 0x7B2C, 32, 49, 32, 0x5217, 0xFF09, 0xFF1A,
      0x64CD, 0x4F5C, 0x6570, 0x5FC5, 0x987B, 0x662F, 0x6570, 0x5B57]"
    by (simp add: runtime_error_text_def example_token_def showInt_1 msg_operand_number_def)
  from runtime_errors_surface_with_position
         [where H = exact_host and n = "Suc (Suc (Suc (Suc 0)))" and s = new_Interpreter
            and s' = new_Interpreter and tok = "example_token MINUS (ascii ''-'') 1 1"
            and msg = msg_operand_number
            and statements = "[Expression (Unary (example_token MINUS (ascii ''-'') 1 1)
                                            (Literal (LBool True)))]"]
       run shown
  have a: "interpret_statements exact_host (Suc (Suc (Suc (Suc 0))))
     [Expression (Unary (example_token MINUS (ascii ''-'') 1 1) (Literal (LBool True)))]
     new_Interpreter
   = Some (Inl (Error ([0x8FD0, 0x884C, 0x65F6, 0x9519, 0x8BEF, 0xFF08, 0x7B2C, 32, 49,
                        32, 0x884C, 0xFF0C, 0x7B2C, 32, 49, 32, 0x5217, 0xFF09, 0xFF1A,
                        0x64CD, 0x4F5C, 0x6570, 0x5FC5, 0x987B, 0x662F, 0x6570, 0x5B57])),
           new_Interpreter)"
    by simp
  from runtime_errors_surface_with_position
         [where H = exact_host and s = new_Interpreter and args = "[VNull, VNumber (Some 1)]"]
  have b: "callBuiltin exact_host BuiltinRange [VNull, VNumber (Some 1)] new_Interpreter
       = (Inl (Error msg_range_arguments), new_Interpreter)"
    by simp
  from runtime_errors_surface_with_position
         [where H = exact_host and s = new_Interpreter and args = "[VNumber (Some 1)]"]
  have c: "callBuiltin exact_host BuiltinLength [VNumber (Some 1)] new_Interpreter
       = (Inl (Error msg_length_argument), new_Interpreter)"
    by simp
  from a b c show ?thesis by blast
qed

section \<open>Return statements\<close>

text \<open>Inside a function a return is not an error: no call lets a \<open>ReturnValue\<close>
  through, \<open>VSFunction.call\<close> catches it and returns its value.\<close>

lemma call_never_throws_ReturnValue:
  "call H n f args s = Some (r, s') \<Longrightarrow> r \<noteq> Inl (ReturnValue v)"
proof (cases n)
  case 0
  then show "call H n f args s = Some (r, s') \<Longrightarrow> r \<noteq> Inl (ReturnValue v)" by simp
next
  case (Suc m)
  assume c: "call H n f args s = Some (r, s')"
  show "r \<noteq> Inl (ReturnValue v)"
  proof (cases f)
    case (VSFunction i nm params body closure)
    with c Suc show ?thesis by (auto simp: Let_def catch_return_outcome)
  next
    case (VBuiltin b)
    with c Suc show ?thesis by (auto dest!: callBuiltin_error)
  qed (use c Suc in auto)
qed

text \<open>
  C2. A return statement can stand outside every function: the parser accepts it
  anywhere. The \<open>ReturnValue\<close> it throws is then caught by no call; \<open>interpret\<close> throws it
  again, since it is not a \<open>RuntimeError\<close>, and the \<open>catch\<close> clause of \<open>run\<close>, which only
  asks whether what it caught is an \<open>Error\<close>, prints that an unknown error occurred
  (U+53D1 U+751F U+672A U+77E5 U+9519 U+8BEF), in red, on the error stream. The script
  that is the word for return, a space and the word for true does so.
\<close>

theorem top_level_return_reported_as_unknown_error:
  "run H (n + 60) [0x8FD4, 0x56DE, 32, 0x771F] s = Some ([red msg_unknown_error], s)
   \<and> report (ReturnValue v) = red msg_unknown_error"
  by (simp add: run_return_true report_def)

end
